theory Spec2Isabelle
  imports Main "HOL-Library.Word"
begin

section \<open>Solidity value types\<close>

type_synonym uint256 = "256 word"
type_synonym uint8 = "8 word"
type_synonym address = "160 word"
type_synonym bytes32 = "256 word"
type_synonym bytes = "8 word list"

text \<open>
  Solidity 0.8 arithmetic is checked: an addition that does not fit in the type
  reverts with a panic instead of wrapping around.
\<close>

definition checked_add :: "uint256 \<Rightarrow> uint256 \<Rightarrow> uint256 option" where
  "checked_add a b = (if unat a + unat b < 2 ^ 256 then Some (a + b) else None)"

section \<open>Errors and events\<close>

text \<open>
  One constructor per custom error the three contracts revert with, \<open>Panic\<close> for
  the arithmetic panic of checked addition, and \<open>NonPayable\<close> for the revert with
  empty data of a function that is not payable and is sent a non-zero value.
\<close>

datatype error =
    InsufficientFee
  | InvalidDomain
  | InvalidAddress
  | DomainAlreadyRegistered
  | AddressAlreadyRegistered
  | InvalidSignature
  | NonceAlreadyUsed
  | AgentNotFound
  | UnauthorizedUpdate
  | UnauthorizedFeedback
  | FeedbackAlreadyAuthorized
  | InvalidDataHash
  | InvalidResponse
  | ValidationRequestNotFound
  | RequestExpired
  | ValidationAlreadyResponded
  | UnauthorizedValidator
  | Panic
  | NonPayable

text \<open>The error taxonomy of the specification, and the class of each contract error.\<close>

datatype error_class =
    FeeMismatch
  | InvalidInput
  | Conflict
  | NotFound
  | Unauthorized
  | BadSignature
  | Replay
  | Expired
  | ArithmeticPanic
  | ValueRefused

fun classify :: "error \<Rightarrow> error_class" where
  "classify InsufficientFee = FeeMismatch"
| "classify InvalidDomain = InvalidInput"
| "classify InvalidAddress = InvalidInput"
| "classify DomainAlreadyRegistered = Conflict"
| "classify AddressAlreadyRegistered = Conflict"
| "classify InvalidSignature = BadSignature"
| "classify NonceAlreadyUsed = Replay"
| "classify AgentNotFound = NotFound"
| "classify UnauthorizedUpdate = Unauthorized"
| "classify UnauthorizedFeedback = Unauthorized"
| "classify FeedbackAlreadyAuthorized = Conflict"
| "classify InvalidDataHash = InvalidInput"
| "classify InvalidResponse = InvalidInput"
| "classify ValidationRequestNotFound = NotFound"
| "classify RequestExpired = Expired"
| "classify ValidationAlreadyResponded = Conflict"
| "classify UnauthorizedValidator = Unauthorized"
| "classify Panic = ArithmeticPanic"
| "classify NonPayable = ValueRefused"

datatype event =
    AgentRegistered uint256 string address
  | AgentUpdated uint256 string address
  | AuthFeedback uint256 uint256 bytes32
  | ValidationRequestEvent uint256 uint256 bytes32
  | ValidationResponseEvent uint256 uint256 bytes32 uint8

section \<open>Injected dependencies and the call environment\<close>

text \<open>
  The contracts import their cryptography and string encoders from libraries outside
  the repository (\<open>SignatureRecover.signatureVerification\<close>, \<open>Strings.toString\<close>,
  \<open>Strings.toHexString\<close>, \<open>keccak256\<close>) and read the protocol id from the EVVM
  contract (\<open>IEvvm(evvmAddress).getEvvmID()\<close>). They are parameters of the model.
  The verifier is a total function to \<open>bool\<close>, as the specification describes it:
  it answers \<open>false\<close> on a malformed signature.
\<close>

record deps =
  getEvvmID :: uint256
  signatureVerification :: "string \<Rightarrow> string \<Rightarrow> string \<Rightarrow> bytes \<Rightarrow> address \<Rightarrow> bool"
  toString :: "uint256 \<Rightarrow> string"
  toHexString :: "uint256 \<Rightarrow> nat \<Rightarrow> string"
  keccak256 :: "bytes \<Rightarrow> bytes32"

text \<open>
  What a call reads from the transaction and the block. Only \<open>newAgent\<close> is
  payable; each of the other four mutating functions reverts, before its body runs,
  when the call carries a non-zero \<open>msg.value\<close>.
\<close>

record env =
  msg_sender :: address
  msg_value :: uint256
  block_number :: uint256
  block_timestamp :: uint256
  block_difficulty :: uint256
  tx_origin :: address

section \<open>IdentityRegistry\<close>

record AgentInfo =
  agentId :: uint256
  agentDomain :: string
  agentAddress :: address

text \<open>
  A Solidity mapping is total: a key never written reads as the zero value. The
  storage of the contract is a record of such total functions.
\<close>

record identity_state =
  agentIdCounter :: uint256
  id_checkAsyncNonce :: "address \<Rightarrow> uint256 \<Rightarrow> bool"
  agents :: "uint256 \<Rightarrow> AgentInfo"
  domainToAgentId :: "string \<Rightarrow> uint256"
  addressToAgentId :: "address \<Rightarrow> uint256"

definition REGISTRATION_FEE :: uint256 where
  "REGISTRATION_FEE = 5000000000000000"

definition no_agent :: AgentInfo where
  "no_agent = \<lparr>agentId = 0, agentDomain = [], agentAddress = 0\<rparr>"

text \<open>The storage right after the constructor: ids start from 1.\<close>

definition identity_init :: identity_state where
  "identity_init =
     \<lparr>agentIdCounter = 1,
      id_checkAsyncNonce = (\<lambda>_ _. False),
      agents = (\<lambda>_. no_agent),
      domainToAgentId = (\<lambda>_. 0),
      addressToAgentId = (\<lambda>_. 0)\<rparr>"

text \<open>
  Every mutating function returns its result together with the storage as it stands
  at the point where the function returns or reverts. A result \<open>Inl e\<close> is a revert
  with error \<open>e\<close>; \<open>Inr (v, ev)\<close> is a return of \<open>v\<close> after emitting \<open>ev\<close>.
\<close>

definition newAgent_message :: "deps \<Rightarrow> string \<Rightarrow> address \<Rightarrow> uint256 \<Rightarrow> string" where
  "newAgent_message d agentDomain' agentAddress' nonce =
     agentDomain' @ '','' @ toHexString d (ucast agentAddress') 20 @ '','' @ toString d nonce"

definition newAgent ::
  "deps \<Rightarrow> env \<Rightarrow> address \<Rightarrow> string \<Rightarrow> address \<Rightarrow> uint256 \<Rightarrow> bytes \<Rightarrow> identity_state
     \<Rightarrow> (error + uint256 \<times> event) \<times> identity_state" where
  "newAgent d e client agentDomain' agentAddress' nonce signature s =
    (if msg_value e \<noteq> REGISTRATION_FEE then (Inl InsufficientFee, s)
     else if length agentDomain' = 0 then (Inl InvalidDomain, s)
     else if agentAddress' = 0 then (Inl InvalidAddress, s)
     else if domainToAgentId s agentDomain' \<noteq> 0 then (Inl DomainAlreadyRegistered, s)
     else if addressToAgentId s agentAddress' \<noteq> 0 then (Inl AddressAlreadyRegistered, s)
     else if \<not> signatureVerification d (toString d (getEvvmID d)) ''newAgent''
                 (newAgent_message d agentDomain' agentAddress' nonce) signature client
       then (Inl InvalidSignature, s)
     else if id_checkAsyncNonce s client nonce then (Inl NonceAlreadyUsed, s)
     else if agentIdCounter s = - 1 then (Inl Panic, s)
     else
       let agentId' = agentIdCounter s;
           s1 = s\<lparr>agentIdCounter := agentIdCounter s + 1\<rparr>;
           s2 = s1\<lparr>agents := (agents s1)(agentId' :=
                  \<lparr>agentId = agentId', agentDomain = agentDomain', agentAddress = agentAddress'\<rparr>)\<rparr>;
           s3 = s2\<lparr>domainToAgentId := (domainToAgentId s2)(agentDomain' := agentId')\<rparr>;
           s4 = s3\<lparr>addressToAgentId := (addressToAgentId s3)(agentAddress' := agentId')\<rparr>;
           s5 = s4\<lparr>id_checkAsyncNonce := (id_checkAsyncNonce s4)
                  (client := (id_checkAsyncNonce s4 client)(nonce := True))\<rparr>
       in (Inr (agentId', AgentRegistered agentId' agentDomain' agentAddress'), s5))"

definition updateAgent_message ::
  "deps \<Rightarrow> uint256 \<Rightarrow> string \<Rightarrow> address \<Rightarrow> uint256 \<Rightarrow> string" where
  "updateAgent_message d agentId' newAgentDomain newAgentAddress nonce =
     toString d agentId' @ '','' @ newAgentDomain @ '','' @
     toHexString d (ucast newAgentAddress) 20 @ '','' @ toString d nonce"

definition updateAgent ::
  "deps \<Rightarrow> env \<Rightarrow> address \<Rightarrow> uint256 \<Rightarrow> string \<Rightarrow> address \<Rightarrow> uint256 \<Rightarrow> bytes \<Rightarrow> identity_state
     \<Rightarrow> (error + bool \<times> event) \<times> identity_state" where
  "updateAgent d e client agentId' newAgentDomain newAgentAddress nonce signature s =
    (if msg_value e \<noteq> 0 then (Inl NonPayable, s)
     else if agentId (agents s agentId') = 0 then (Inl AgentNotFound, s)
     else if msg_sender e \<noteq> agentAddress (agents s agentId') then (Inl UnauthorizedUpdate, s)
     else if \<not> signatureVerification d (toString d (getEvvmID d)) ''updateAgent''
                 (updateAgent_message d agentId' newAgentDomain newAgentAddress nonce)
                 signature client
       then (Inl InvalidSignature, s)
     else if id_checkAsyncNonce s client nonce then (Inl NonceAlreadyUsed, s)
     else
       let domainChanged = (length newAgentDomain > 0);
           addressChanged = (newAgentAddress \<noteq> 0)
       in
       if domainChanged \<and> domainToAgentId s newAgentDomain \<noteq> 0
         then (Inl DomainAlreadyRegistered, s)
       else if addressChanged \<and> addressToAgentId s newAgentAddress \<noteq> 0
         then (Inl AddressAlreadyRegistered, s)
       else
         let s1 = (if domainChanged then
                     let t1 = s\<lparr>domainToAgentId :=
                                (domainToAgentId s)(agentDomain (agents s agentId') := 0)\<rparr>;
                         t2 = t1\<lparr>agents := (agents t1)(agentId' :=
                                (agents t1 agentId')\<lparr>agentDomain := newAgentDomain\<rparr>)\<rparr>
                     in t2\<lparr>domainToAgentId := (domainToAgentId t2)(newAgentDomain := agentId')\<rparr>
                   else s);
             s2 = (if addressChanged then
                     let t1 = s1\<lparr>addressToAgentId :=
                                (addressToAgentId s1)(agentAddress (agents s1 agentId') := 0)\<rparr>;
                         t2 = t1\<lparr>agents := (agents t1)(agentId' :=
                                (agents t1 agentId')\<lparr>agentAddress := newAgentAddress\<rparr>)\<rparr>
                     in t2\<lparr>addressToAgentId := (addressToAgentId t2)(newAgentAddress := agentId')\<rparr>
                   else s1);
             s3 = s2\<lparr>id_checkAsyncNonce := (id_checkAsyncNonce s2)
                    (client := (id_checkAsyncNonce s2 client)(nonce := True))\<rparr>
         in (Inr (True, AgentUpdated agentId' (agentDomain (agents s3 agentId'))
                          (agentAddress (agents s3 agentId'))), s3))"

text \<open>The read functions of the registry.\<close>

definition getAgent :: "identity_state \<Rightarrow> uint256 \<Rightarrow> error + AgentInfo" where
  "getAgent s agentId' =
     (if agentId (agents s agentId') = 0 then Inl AgentNotFound else Inr (agents s agentId'))"

definition resolveByDomain :: "identity_state \<Rightarrow> string \<Rightarrow> error + AgentInfo" where
  "resolveByDomain s agentDomain' =
     (if domainToAgentId s agentDomain' = 0 then Inl AgentNotFound
      else Inr (agents s (domainToAgentId s agentDomain')))"

definition resolveByAddress :: "identity_state \<Rightarrow> address \<Rightarrow> error + AgentInfo" where
  "resolveByAddress s agentAddress' =
     (if addressToAgentId s agentAddress' = 0 then Inl AgentNotFound
      else Inr (agents s (addressToAgentId s agentAddress')))"

text \<open>The subtraction is checked as well: it would panic on a counter of 0.\<close>

definition getAgentCount :: "identity_state \<Rightarrow> error + uint256" where
  "getAgentCount s = (if agentIdCounter s = 0 then Inl Panic else Inr (agentIdCounter s - 1))"

definition agentExists :: "identity_state \<Rightarrow> uint256 \<Rightarrow> bool" where
  "agentExists s agentId' = (agentId (agents s agentId') \<noteq> 0)"

section \<open>ReputationRegistry\<close>

record reputation_state =
  rep_checkAsyncNonce :: "address \<Rightarrow> uint256 \<Rightarrow> bool"
  feedbackAuthorizations :: "bytes32 \<Rightarrow> bool"
  clientServerToAuthId :: "uint256 \<Rightarrow> uint256 \<Rightarrow> bytes32"

definition reputation_init :: reputation_state where
  "reputation_init =
     \<lparr>rep_checkAsyncNonce = (\<lambda>_ _. False),
      feedbackAuthorizations = (\<lambda>_. False),
      clientServerToAuthId = (\<lambda>_ _. 0)\<rparr>"

text \<open>\<open>abi.encodePacked\<close> lays a fixed-width value out as its big-endian bytes.\<close>

definition be_bytes :: "nat \<Rightarrow> 'a::len word \<Rightarrow> bytes" where
  "be_bytes n w = map (\<lambda>i. ucast (drop_bit (8 * i) w)) (rev [0..<n])"

definition generateFeedbackAuthId :: "deps \<Rightarrow> env \<Rightarrow> uint256 \<Rightarrow> uint256 \<Rightarrow> bytes32" where
  "generateFeedbackAuthId d e agentClientId agentServerId' =
     keccak256 d (be_bytes 32 agentClientId @ be_bytes 32 agentServerId' @
                  be_bytes 32 (block_timestamp e) @ be_bytes 32 (block_difficulty e) @
                  be_bytes 20 (tx_origin e))"

definition acceptFeedback_message :: "deps \<Rightarrow> uint256 \<Rightarrow> uint256 \<Rightarrow> uint256 \<Rightarrow> string" where
  "acceptFeedback_message d agentClientId agentServerId' nonce =
     toString d agentClientId @ '','' @ toString d agentServerId' @ '','' @ toString d nonce"

text \<open>
  The registry reads the identity registry through \<open>agentExists\<close> and \<open>getAgent\<close>;
  the identity storage \<open>ids\<close> is an argument it never changes.
\<close>

definition acceptFeedback ::
  "deps \<Rightarrow> env \<Rightarrow> identity_state \<Rightarrow> address \<Rightarrow> uint256 \<Rightarrow> uint256 \<Rightarrow> uint256 \<Rightarrow> bytes
     \<Rightarrow> reputation_state \<Rightarrow> (error + unit \<times> event) \<times> reputation_state" where
  "acceptFeedback d e ids client agentClientId agentServerId' nonce signature s =
    (if msg_value e \<noteq> 0 then (Inl NonPayable, s)
     else if \<not> agentExists ids agentClientId then (Inl AgentNotFound, s)
     else if \<not> agentExists ids agentServerId' then (Inl AgentNotFound, s)
     else if \<not> signatureVerification d (toString d (getEvvmID d)) ''updateAgent''
                 (acceptFeedback_message d agentClientId agentServerId' nonce) signature client
       then (Inl InvalidSignature, s)
     else if rep_checkAsyncNonce s client nonce then (Inl NonceAlreadyUsed, s)
     else
       (case getAgent ids agentServerId' of
          Inl err \<Rightarrow> (Inl err, s)
        | Inr serverAgent \<Rightarrow>
            if msg_sender e \<noteq> agentAddress serverAgent then (Inl UnauthorizedFeedback, s)
            else if clientServerToAuthId s agentClientId agentServerId' \<noteq> 0
              then (Inl FeedbackAlreadyAuthorized, s)
            else
              let feedbackAuthId = generateFeedbackAuthId d e agentClientId agentServerId';
                  s1 = s\<lparr>feedbackAuthorizations :=
                         (feedbackAuthorizations s)(feedbackAuthId := True)\<rparr>;
                  s2 = s1\<lparr>clientServerToAuthId := (clientServerToAuthId s1)
                         (agentClientId :=
                            (clientServerToAuthId s1 agentClientId)
                              (agentServerId' := feedbackAuthId))\<rparr>;
                  s3 = s2\<lparr>rep_checkAsyncNonce := (rep_checkAsyncNonce s2)
                         (client := (rep_checkAsyncNonce s2 client)(nonce := True))\<rparr>
              in (Inr ((), AuthFeedback agentClientId agentServerId' feedbackAuthId), s3)))"

definition isFeedbackAuthorized :: "reputation_state \<Rightarrow> uint256 \<Rightarrow> uint256 \<Rightarrow> bool \<times> bytes32" where
  "isFeedbackAuthorized s agentClientId agentServerId' =
     (let feedbackAuthId = clientServerToAuthId s agentClientId agentServerId'
      in (feedbackAuthId \<noteq> 0 \<and> feedbackAuthorizations s feedbackAuthId, feedbackAuthId))"

definition getFeedbackAuthId :: "reputation_state \<Rightarrow> uint256 \<Rightarrow> uint256 \<Rightarrow> bytes32" where
  "getFeedbackAuthId s agentClientId agentServerId' =
     clientServerToAuthId s agentClientId agentServerId'"

section \<open>ValidationRegistry\<close>

record Request =
  agentValidatorId :: uint256
  agentServerId :: uint256
  dataHash :: bytes32
  timestamp :: uint256
  responded :: bool

record validation_state =
  val_checkAsyncNonce :: "address \<Rightarrow> uint256 \<Rightarrow> bool"
  validationRequests :: "bytes32 \<Rightarrow> Request"
  validationResponses :: "bytes32 \<Rightarrow> uint8"
  hasResponse :: "bytes32 \<Rightarrow> bool"

definition EXPIRATION_SLOTS :: uint256 where
  "EXPIRATION_SLOTS = 1000"

definition no_request :: Request where
  "no_request = \<lparr>agentValidatorId = 0, agentServerId = 0, dataHash = 0,
                 timestamp = 0, responded = False\<rparr>"

definition validation_init :: validation_state where
  "validation_init =
     \<lparr>val_checkAsyncNonce = (\<lambda>_ _. False),
      validationRequests = (\<lambda>_. no_request),
      validationResponses = (\<lambda>_. 0),
      hasResponse = (\<lambda>_. False)\<rparr>"

definition validationRequest_message ::
  "deps \<Rightarrow> uint256 \<Rightarrow> uint256 \<Rightarrow> bytes32 \<Rightarrow> uint256 \<Rightarrow> string" where
  "validationRequest_message d validatorId serverId dataHash' nonce =
     toString d validatorId @ '','' @ toString d serverId @ '','' @
     toHexString d dataHash' 32 @ '','' @ toString d nonce"

definition validationRequest ::
  "deps \<Rightarrow> env \<Rightarrow> identity_state \<Rightarrow> address \<Rightarrow> uint256 \<Rightarrow> uint256 \<Rightarrow> bytes32 \<Rightarrow> uint256 \<Rightarrow> bytes
     \<Rightarrow> validation_state \<Rightarrow> (error + unit \<times> event) \<times> validation_state" where
  "validationRequest d e ids client validatorId serverId dataHash' nonce signature s =
    (if msg_value e \<noteq> 0 then (Inl NonPayable, s)
     else if dataHash' = 0 then (Inl InvalidDataHash, s)
     else if \<not> agentExists ids validatorId then (Inl AgentNotFound, s)
     else if \<not> agentExists ids serverId then (Inl AgentNotFound, s)
     else if \<not> signatureVerification d (toString d (getEvvmID d)) ''updateAgent''
                 (validationRequest_message d validatorId serverId dataHash' nonce)
                 signature client
       then (Inl InvalidSignature, s)
     else if val_checkAsyncNonce s client nonce then (Inl NonceAlreadyUsed, s)
     else
       let existingRequest = validationRequests s dataHash';
           created =
             (let s1 = s\<lparr>validationRequests := (validationRequests s)(dataHash' :=
                           \<lparr>agentValidatorId = validatorId, agentServerId = serverId,
                            dataHash = dataHash', timestamp = block_number e,
                            responded = False\<rparr>)\<rparr>;
                  s2 = s1\<lparr>val_checkAsyncNonce := (val_checkAsyncNonce s1)
                         (client := (val_checkAsyncNonce s1 client)(nonce := True))\<rparr>
              in (Inr ((), ValidationRequestEvent validatorId serverId dataHash'), s2))
       in
       if dataHash existingRequest \<noteq> 0 then
         (case checked_add (timestamp existingRequest) EXPIRATION_SLOTS of
            None \<Rightarrow> (Inl Panic, s)
          | Some limit \<Rightarrow>
              if block_number e \<le> limit
                then (Inr ((), ValidationRequestEvent validatorId serverId dataHash'), s)
              else created)
       else created)"

definition validationResponse_message :: "deps \<Rightarrow> bytes32 \<Rightarrow> uint8 \<Rightarrow> uint256 \<Rightarrow> string" where
  "validationResponse_message d dataHash' response nonce =
     toHexString d dataHash' 32 @ '','' @ toString d (ucast response) @ '','' @ toString d nonce"

definition validationResponse ::
  "deps \<Rightarrow> env \<Rightarrow> identity_state \<Rightarrow> address \<Rightarrow> bytes32 \<Rightarrow> uint8 \<Rightarrow> uint256 \<Rightarrow> bytes
     \<Rightarrow> validation_state \<Rightarrow> (error + unit \<times> event) \<times> validation_state" where
  "validationResponse d e ids client dataHash' response nonce signature s =
    (if msg_value e \<noteq> 0 then (Inl NonPayable, s)
     else if response > 100 then (Inl InvalidResponse, s)
     else
       let request = validationRequests s dataHash' in
       if dataHash request = 0 then (Inl ValidationRequestNotFound, s)
       else
         (case checked_add (timestamp request) EXPIRATION_SLOTS of
            None \<Rightarrow> (Inl Panic, s)
          | Some limit \<Rightarrow>
              if block_number e > limit then (Inl RequestExpired, s)
              else if responded request then (Inl ValidationAlreadyResponded, s)
              else if \<not> signatureVerification d (toString d (getEvvmID d)) ''updateAgent''
                          (validationResponse_message d dataHash' response nonce)
                          signature client
                then (Inl InvalidSignature, s)
              else if val_checkAsyncNonce s client nonce then (Inl NonceAlreadyUsed, s)
              else
                (case getAgent ids (agentValidatorId request) of
                   Inl err \<Rightarrow> (Inl err, s)
                 | Inr validatorAgent \<Rightarrow>
                     if msg_sender e \<noteq> agentAddress validatorAgent
                       then (Inl UnauthorizedValidator, s)
                     else
                       let s1 = s\<lparr>validationRequests := (validationRequests s)
                                  (dataHash' := request\<lparr>responded := True\<rparr>)\<rparr>;
                           s2 = s1\<lparr>validationResponses :=
                                  (validationResponses s1)(dataHash' := response)\<rparr>;
                           s3 = s2\<lparr>hasResponse := (hasResponse s2)(dataHash' := True)\<rparr>;
                           s4 = s3\<lparr>val_checkAsyncNonce := (val_checkAsyncNonce s3)
                                  (client := (val_checkAsyncNonce s3 client)(nonce := True))\<rparr>
                       in (Inr ((), ValidationResponseEvent
                                      (agentValidatorId (validationRequests s4 dataHash'))
                                      (agentServerId (validationRequests s4 dataHash'))
                                      dataHash' response), s4))))"

definition getValidationRequest :: "validation_state \<Rightarrow> bytes32 \<Rightarrow> error + Request" where
  "getValidationRequest s dataHash' =
     (if dataHash (validationRequests s dataHash') = 0 then Inl ValidationRequestNotFound
      else Inr (validationRequests s dataHash'))"

definition isValidationPending ::
  "env \<Rightarrow> validation_state \<Rightarrow> bytes32 \<Rightarrow> error + bool \<times> bool" where
  "isValidationPending e s dataHash' =
     (let request = validationRequests s dataHash';
          exists = (dataHash request \<noteq> 0)
      in if exists then
           (case checked_add (timestamp request) EXPIRATION_SLOTS of
              None \<Rightarrow> Inl Panic
            | Some limit \<Rightarrow>
                let expired = (block_number e > limit)
                in Inr (exists, \<not> expired \<and> \<not> responded request))
         else Inr (exists, False))"

definition getValidationResponse :: "validation_state \<Rightarrow> bytes32 \<Rightarrow> bool \<times> uint8" where
  "getValidationResponse s dataHash' =
     (if hasResponse s dataHash' then (True, validationResponses s dataHash') else (False, 0))"

section \<open>The three registries as one system\<close>

text \<open>
  A transaction that reverts leaves the storage of the contract as it was before the
  call; one that returns commits the storage it has built.
\<close>

definition commit :: "'s \<Rightarrow> (error + 'a) \<times> 's \<Rightarrow> 's" where
  "commit s r = (case fst r of Inl _ \<Rightarrow> s | Inr _ \<Rightarrow> snd r)"

record world =
  identity :: identity_state
  reputation :: reputation_state
  validation :: validation_state

definition world_init :: world where
  "world_init = \<lparr>identity = identity_init, reputation = reputation_init,
                 validation = validation_init\<rparr>"

datatype call =
    NewAgent address string address uint256 bytes
  | UpdateAgent address uint256 string address uint256 bytes
  | AcceptFeedback address uint256 uint256 uint256 bytes
  | ValidationRequest address uint256 uint256 bytes32 uint256 bytes
  | ValidationResponse address bytes32 uint8 uint256 bytes

fun exec :: "deps \<Rightarrow> env \<Rightarrow> call \<Rightarrow> world \<Rightarrow> world" where
  "exec d e (NewAgent c dm a n sg) w =
     w\<lparr>identity := commit (identity w) (newAgent d e c dm a n sg (identity w))\<rparr>"
| "exec d e (UpdateAgent c i dm a n sg) w =
     w\<lparr>identity := commit (identity w) (updateAgent d e c i dm a n sg (identity w))\<rparr>"
| "exec d e (AcceptFeedback c ci si n sg) w =
     w\<lparr>reputation := commit (reputation w)
          (acceptFeedback d e (identity w) c ci si n sg (reputation w))\<rparr>"
| "exec d e (ValidationRequest c vi si h n sg) w =
     w\<lparr>validation := commit (validation w)
          (validationRequest d e (identity w) c vi si h n sg (validation w))\<rparr>"
| "exec d e (ValidationResponse c h r n sg) w =
     w\<lparr>validation := commit (validation w)
          (validationResponse d e (identity w) c h r n sg (validation w))\<rparr>"

text \<open>Whether a call returns or reverts, and with which error.\<close>

fun outcome :: "deps \<Rightarrow> env \<Rightarrow> call \<Rightarrow> world \<Rightarrow> error option" where
  "outcome d e (NewAgent c dm a n sg) w =
     (case fst (newAgent d e c dm a n sg (identity w)) of Inl err \<Rightarrow> Some err | Inr _ \<Rightarrow> None)"
| "outcome d e (UpdateAgent c i dm a n sg) w =
     (case fst (updateAgent d e c i dm a n sg (identity w)) of
        Inl err \<Rightarrow> Some err | Inr _ \<Rightarrow> None)"
| "outcome d e (AcceptFeedback c ci si n sg) w =
     (case fst (acceptFeedback d e (identity w) c ci si n sg (reputation w)) of
        Inl err \<Rightarrow> Some err | Inr _ \<Rightarrow> None)"
| "outcome d e (ValidationRequest c vi si h n sg) w =
     (case fst (validationRequest d e (identity w) c vi si h n sg (validation w)) of
        Inl err \<Rightarrow> Some err | Inr _ \<Rightarrow> None)"
| "outcome d e (ValidationResponse c h r n sg) w =
     (case fst (validationResponse d e (identity w) c h r n sg (validation w)) of
        Inl err \<Rightarrow> Some err | Inr _ \<Rightarrow> None)"

text \<open>A history is a list of calls, each with the environment it ran in.\<close>

fun run :: "deps \<Rightarrow> (env \<times> call) list \<Rightarrow> world \<Rightarrow> world" where
  "run d [] w = w"
| "run d ((e, c) # cs) w = run d cs (exec d e c w)"

section \<open>Fixtures for concrete runs\<close>

text \<open>
  A stand-in for the injected dependencies, after the mock EVVM of the test suite
  (protocol id 1): the verifier accepts a signature exactly when the function name it
  is asked to check is one of \<open>names\<close>, so a run can say which operations its
  signer has signed for.
\<close>

definition mock_deps :: "string list \<Rightarrow> deps" where
  "mock_deps names =
     \<lparr>getEvvmID = 1,
      signatureVerification = (\<lambda>evvmID functionName message signature signer.
         functionName \<in> set names),
      toString = (\<lambda>_. []),
      toHexString = (\<lambda>_ _. []),
      keccak256 = (\<lambda>_. 1)\<rparr>"

definition call_env :: "address \<Rightarrow> uint256 \<Rightarrow> uint256 \<Rightarrow> env" where
  "call_env sender val height =
     \<lparr>msg_sender = sender, msg_value = val, block_number = height,
      block_timestamp = 0, block_difficulty = 0, tx_origin = sender\<rparr>"

text \<open>
  Storages reached by running the model: one registered agent (id 1, domain \<open>a\<close>,
  address 5, registered by principal 9 with nonce 1), a second one (id 2, domain
  \<open>b\<close>, address 6, nonce 2), and a validation request for data hash 7 made at
  height 10 with validator 1 and server 2 (principal 9, nonce 1 of the validation
  registry).
\<close>

definition one_agent :: identity_state where
  "one_agent = snd (newAgent (mock_deps [''newAgent'']) (call_env 9 REGISTRATION_FEE 0)
                      9 ''a'' 5 1 [] identity_init)"

definition two_agents :: identity_state where
  "two_agents = snd (newAgent (mock_deps [''newAgent'']) (call_env 9 REGISTRATION_FEE 0)
                      9 ''b'' 6 2 [] one_agent)"

definition pending_request :: validation_state where
  "pending_request = snd (validationRequest (mock_deps [''updateAgent'']) (call_env 9 0 10)
                      two_agents 9 1 2 7 1 [] validation_init)"

text \<open>The request above after validator 1 (address 5) has answered 85 at height 20.\<close>

definition responded_request :: validation_state where
  "responded_request = snd (validationResponse (mock_deps [''updateAgent''])
                      (call_env 5 0 20) two_agents 9 7 85 2 [] pending_request)"

definition fixture_world :: "validation_state \<Rightarrow> world" where
  "fixture_world vs = \<lparr>identity = two_agents, reputation = reputation_init, validation = vs\<rparr>"

text \<open>Whether a result is a failure of a given class of the specification.\<close>

definition fails_with :: "error + 'a \<Rightarrow> error_class \<Rightarrow> bool" where
  "fails_with r k = (case r of Inl err \<Rightarrow> classify err = k | Inr _ \<Rightarrow> False)"

section \<open>The order of the checks of newAgent, as the specification lists it\<close>

text \<open>
  The specification gives the preconditions of \<open>newAgent\<close> as an ordered list, each
  with the error its violation raises. \<open>newAgent_preconditions\<close> is that list, written
  from the specification; \<open>first_violated\<close> picks the error of the earliest
  precondition that does not hold.
\<close>

fun first_violated :: "(bool \<times> error) list \<Rightarrow> error option" where
  "first_violated [] = None"
| "first_violated ((holds, err) # rest) = (if holds then first_violated rest else Some err)"

definition newAgent_preconditions ::
  "deps \<Rightarrow> env \<Rightarrow> address \<Rightarrow> string \<Rightarrow> address \<Rightarrow> uint256 \<Rightarrow> bytes \<Rightarrow> identity_state
     \<Rightarrow> (bool \<times> error) list" where
  "newAgent_preconditions d e clientPrincipal domain addr nonce signature s =
     [(msg_value e = REGISTRATION_FEE, InsufficientFee),
      (domain \<noteq> [], InvalidDomain),
      (addr \<noteq> 0, InvalidAddress),
      (domainToAgentId s domain = 0, DomainAlreadyRegistered),
      (addressToAgentId s addr = 0, AddressAlreadyRegistered),
      (signatureVerification d (toString d (getEvvmID d)) ''newAgent''
         (domain @ '','' @ toHexString d (ucast addr) 20 @ '','' @ toString d nonce)
         signature clientPrincipal, InvalidSignature),
      (\<not> id_checkAsyncNonce s clientPrincipal nonce, NonceAlreadyUsed)]"

section \<open>The consistency invariant of the identity registry\<close>

text \<open>
  The counter never returns to 0; a stored record carries its own key as id and that
  key lies below the counter; every existing agent is found under its domain and under
  its address; every non-zero index entry points to an existing agent with that
  domain, respectively that address.
\<close>

definition identity_inv :: "identity_state \<Rightarrow> bool" where
  "identity_inv s \<longleftrightarrow>
     agentIdCounter s \<noteq> 0
   \<and> (\<forall>i. agentId (agents s i) = 0 \<or> (agentId (agents s i) = i \<and> i < agentIdCounter s))
   \<and> (\<forall>i. agentId (agents s i) \<noteq> 0 \<longrightarrow> domainToAgentId s (agentDomain (agents s i)) = i)
   \<and> (\<forall>dm. domainToAgentId s dm \<noteq> 0 \<longrightarrow>
         agentId (agents s (domainToAgentId s dm)) \<noteq> 0
         \<and> agentDomain (agents s (domainToAgentId s dm)) = dm)
   \<and> (\<forall>i. agentId (agents s i) \<noteq> 0 \<longrightarrow> addressToAgentId s (agentAddress (agents s i)) = i)
   \<and> (\<forall>a. addressToAgentId s a \<noteq> 0 \<longrightarrow>
         agentId (agents s (addressToAgentId s a)) \<noteq> 0
         \<and> agentAddress (agents s (addressToAgentId s a)) = a)"

section \<open>Histories that keep a validation answer\<close>

text \<open>
  A call is a late request for data hash \<open>h\<close> when it is a \<open>validationRequest\<close> for
  \<open>h\<close> that returns, made after the window of the request stored for \<open>h\<close> has
  passed: the call that replaces the record. A history has no late request when none
  of its calls is one in the storage it runs in; calls that revert are never late.
  \<open>answered vs h R v\<close> says that the registry holds request \<open>R\<close> and score \<open>v\<close> for
  \<open>h\<close>.
\<close>

definition late_request :: "deps \<Rightarrow> bytes32 \<Rightarrow> env \<Rightarrow> call \<Rightarrow> world \<Rightarrow> bool" where
  "late_request d h e c w =
     (case c of
        ValidationRequest cl vi si h' n sg \<Rightarrow>
          h' = h
          \<and> unat (block_number e)
              > unat (timestamp (validationRequests (validation w) h)) + unat EXPIRATION_SLOTS
          \<and> outcome d e c w = None
      | _ \<Rightarrow> False)"

fun no_late_request :: "deps \<Rightarrow> bytes32 \<Rightarrow> (env \<times> call) list \<Rightarrow> world \<Rightarrow> bool" where
  "no_late_request d h [] w = True"
| "no_late_request d h ((e, c) # cs) w =
     (\<not> late_request d h e c w \<and> no_late_request d h cs (exec d e c w))"

definition answered :: "validation_state \<Rightarrow> bytes32 \<Rightarrow> Request \<Rightarrow> uint8 \<Rightarrow> bool" where
  "answered vs h R v \<longleftrightarrow>
     validationRequests vs h = R \<and> validationResponses vs h = v \<and> hasResponse vs h"

section \<open>Verified properties\<close>

subsection \<open>The fixtures, evaluated\<close>

lemma one_agent_simps:
  "agentIdCounter one_agent = 2"
  "agents one_agent =
     (\<lambda>_. no_agent)(1 := \<lparr>agentId = 1, agentDomain = ''a'', agentAddress = 5\<rparr>)"
  "domainToAgentId one_agent = (\<lambda>_. 0)(''a'' := 1)"
  "addressToAgentId one_agent = (\<lambda>_. 0)(5 := 1)"
  "id_checkAsyncNonce one_agent = (\<lambda>_ _. False)(9 := (\<lambda>_. False)(1 := True))"
  by (simp_all add: one_agent_def newAgent_def mock_deps_def call_env_def identity_init_def
      Let_def)

lemma two_agents_simps:
  "agentIdCounter two_agents = 3"
  "agents two_agents = (\<lambda>_. no_agent)
     (1 := \<lparr>agentId = 1, agentDomain = ''a'', agentAddress = 5\<rparr>,
      2 := \<lparr>agentId = 2, agentDomain = ''b'', agentAddress = 6\<rparr>)"
  "domainToAgentId two_agents = (\<lambda>_. 0)(''a'' := 1, ''b'' := 2)"
  "addressToAgentId two_agents = (\<lambda>_. 0)(5 := 1, 6 := 2)"
  "id_checkAsyncNonce two_agents = (\<lambda>_ _. False)(9 := (\<lambda>_. False)(1 := True, 2 := True))"
  by (simp_all add: two_agents_def newAgent_def mock_deps_def call_env_def one_agent_simps
      REGISTRATION_FEE_def Let_def)

lemma pending_request_simps:
  "validationRequests pending_request = (\<lambda>_. no_request)
     (7 := \<lparr>agentValidatorId = 1, agentServerId = 2, dataHash = 7, timestamp = 10,
            responded = False\<rparr>)"
  "val_checkAsyncNonce pending_request = (\<lambda>_ _. False)(9 := (\<lambda>_. False)(1 := True))"
  "validationResponses pending_request = (\<lambda>_. 0)"
  "hasResponse pending_request = (\<lambda>_. False)"
  by (simp_all add: pending_request_def validationRequest_def mock_deps_def call_env_def
      two_agents_simps validation_init_def agentExists_def no_request_def Let_def)

lemma responded_request_simps:
  "validationRequests responded_request = (\<lambda>_. no_request)
     (7 := \<lparr>agentValidatorId = 1, agentServerId = 2, dataHash = 7, timestamp = 10,
            responded = True\<rparr>)"
  "val_checkAsyncNonce responded_request =
     (\<lambda>_ _. False)(9 := (\<lambda>_. False)(1 := True, 2 := True))"
  "validationResponses responded_request = (\<lambda>_. 0)(7 := 85)"
  "hasResponse responded_request = (\<lambda>_. False)(7 := True)"
  by (simp_all add: responded_request_def validationResponse_def mock_deps_def call_env_def
      two_agents_simps pending_request_simps agentExists_def getAgent_def checked_add_def
      EXPIRATION_SLOTS_def Let_def)

subsection \<open>Checked addition\<close>

lemma checked_add_Some:
  assumes "checked_add a b = Some l"
  shows "unat l = unat a + unat b"
proof -
  from assms have lt: "unat a + unat b < 2 ^ 256" and l: "l = a + b"
    by (auto simp only: checked_add_def split: if_splits)
  from lt have "unat a + unat b < 2 ^ LENGTH(256)" by simp
  then have "unat (a + b) = unat a + unat b" by (simp only: unat_add_lem [THEN iffD1])
  with l show ?thesis by simp
qed

lemma checked_add_None: "checked_add a b = None \<longleftrightarrow> 2 ^ 256 \<le> unat a + unat b"
  by (auto simp: checked_add_def)

subsection \<open>A revert happens before any write\<close>

lemma newAgent_revert_state:
  "fst (newAgent d e c dm a n sg s) = Inl err \<Longrightarrow> snd (newAgent d e c dm a n sg s) = s"
  by (simp add: newAgent_def Let_def split: if_splits)

lemma updateAgent_revert_state:
  "fst (updateAgent d e c i dm a n sg s) = Inl err \<Longrightarrow>
   snd (updateAgent d e c i dm a n sg s) = s"
  by (auto simp: updateAgent_def Let_def split: if_splits)

lemma acceptFeedback_revert_state:
  "fst (acceptFeedback d e ids c ci si n sg s) = Inl err \<Longrightarrow>
   snd (acceptFeedback d e ids c ci si n sg s) = s"
  by (simp add: acceptFeedback_def Let_def split: if_splits sum.splits)

lemma validationRequest_revert_state:
  "fst (validationRequest d e ids c vi si h n sg s) = Inl err \<Longrightarrow>
   snd (validationRequest d e ids c vi si h n sg s) = s"
  by (simp add: validationRequest_def Let_def split: if_splits option.splits)

lemma validationResponse_revert_state:
  "fst (validationResponse d e ids c h r n sg s) = Inl err \<Longrightarrow>
   snd (validationResponse d e ids c h r n sg s) = s"
  by (simp add: validationResponse_def Let_def split: if_splits option.splits sum.splits)

text \<open>
  Claim C4. Every mutating operation of every registry is all-or-nothing: whenever
  \<open>newAgent\<close>, \<open>updateAgent\<close>, \<open>acceptFeedback\<close>, \<open>validationRequest\<close> or
  \<open>validationResponse\<close> fails with an error, the whole storage of its registry
  (records, indexes, authorization and request/response maps, nonce sets) at the point
  of the revert is exactly the storage before the call, because every check precedes
  every write.
\<close>

theorem failed_call_leaves_state_unchanged:
  "(fst (newAgent d e c dm a n sg s) = Inl err \<longrightarrow>
      snd (newAgent d e c dm a n sg s) = s)
   \<and> (fst (updateAgent d e c i dm a n sg s) = Inl err \<longrightarrow>
      snd (updateAgent d e c i dm a n sg s) = s)
   \<and> (fst (acceptFeedback d e ids c ci si n sg rs) = Inl err \<longrightarrow>
      snd (acceptFeedback d e ids c ci si n sg rs) = rs)
   \<and> (fst (validationRequest d e ids c vi si h n sg vs) = Inl err \<longrightarrow>
      snd (validationRequest d e ids c vi si h n sg vs) = vs)
   \<and> (fst (validationResponse d e ids c h r n sg vs) = Inl err \<longrightarrow>
      snd (validationResponse d e ids c h r n sg vs) = vs)"
  by (intro conjI impI)
    (erule newAgent_revert_state updateAgent_revert_state acceptFeedback_revert_state
       validationRequest_revert_state validationResponse_revert_state)+

theorem failed_call_leaves_state_unchanged_witness:
  "newAgent (mock_deps [''newAgent'']) (call_env 9 REGISTRATION_FEE 0) 9 ''a'' 6 2 [] one_agent
     = (Inl DomainAlreadyRegistered, one_agent)
   \<and> updateAgent (mock_deps [''updateAgent'']) (call_env 5 0 0) 9 1 ''b'' 0 1 [] one_agent
     = (Inl NonceAlreadyUsed, one_agent)
   \<and> acceptFeedback (mock_deps [''updateAgent'']) (call_env 6 0 0) one_agent 9 1 1 1 []
       reputation_init
     = (Inl UnauthorizedFeedback, reputation_init)
   \<and> validationRequest (mock_deps []) (call_env 6 0 0) one_agent 9 1 1 7 1 [] validation_init
     = (Inl InvalidSignature, validation_init)
   \<and> validationResponse (mock_deps []) (call_env 6 0 0) one_agent 9 7 50 1 [] validation_init
     = (Inl ValidationRequestNotFound, validation_init)"
  using
    failed_call_leaves_state_unchanged
      [of "mock_deps [''newAgent'']" "call_env 9 REGISTRATION_FEE 0" 9 "''a''" 6 2 "[]"
          one_agent DomainAlreadyRegistered]
    failed_call_leaves_state_unchanged
      [of "mock_deps [''updateAgent'']" "call_env 5 0 0" 9 "''b''" 0 1 "[]" one_agent
          NonceAlreadyUsed 1]
    failed_call_leaves_state_unchanged
      [of "mock_deps [''updateAgent'']" "call_env 6 0 0" 9 _ _ 1 "[]" _
          UnauthorizedFeedback _ one_agent 1 1 reputation_init]
    failed_call_leaves_state_unchanged
      [of "mock_deps []" "call_env 6 0 0" 9 _ _ 1 "[]" _
          InvalidSignature _ one_agent _ 1 _ 1 7 validation_init]
    failed_call_leaves_state_unchanged
      [of "mock_deps []" "call_env 6 0 0" 9 _ _ 1 "[]" _
          ValidationRequestNotFound _ one_agent _ 1 _ _ 7 validation_init 50]
  by (simp add: prod_eq_iff newAgent_def updateAgent_def acceptFeedback_def
      validationRequest_def validationResponse_def agentExists_def getAgent_def
      one_agent_simps mock_deps_def call_env_def REGISTRATION_FEE_def validation_init_def
      reputation_init_def no_request_def)

subsection \<open>newAgent\<close>

text \<open>
  Claim C5. \<open>newAgent\<close> evaluates its preconditions in exactly the order of the
  specification (fee, domain non-empty, address non-null, domain unclaimed, address
  unclaimed, signature over domain, hex(address), nonce against the client principal,
  nonce unused) and fails with the error of the first violated one, whatever else is
  violated; the errors are of the classes FeeMismatch, InvalidInput, InvalidInput,
  Conflict, Conflict, InvalidSignature, Replay. When none is violated the call
  returns the next id, unless the id counter has run out.
\<close>

theorem newAgent_check_order:
  "fst (newAgent d e client dm a n sg s) =
     (case first_violated (newAgent_preconditions d e client dm a n sg s) of
        Some err \<Rightarrow> Inl err
      | None \<Rightarrow> if agentIdCounter s = - 1 then Inl Panic
                else Inr (agentIdCounter s, AgentRegistered (agentIdCounter s) dm a))
   \<and> map (classify \<circ> snd) (newAgent_preconditions d e client dm a n sg s) =
       [FeeMismatch, InvalidInput, InvalidInput, Conflict, Conflict, BadSignature, Replay]"
  by (simp add: newAgent_def newAgent_preconditions_def newAgent_message_def Let_def)

theorem newAgent_check_order_witness:
  "fst (newAgent (mock_deps []) (call_env 7 0 0) 9 [] 0 1 [] identity_init)
     = Inl InsufficientFee
   \<and> fst (newAgent (mock_deps []) (call_env 7 REGISTRATION_FEE 0) 9 [] 0 1 [] identity_init)
     = Inl InvalidDomain
   \<and> fst (newAgent (mock_deps []) (call_env 7 REGISTRATION_FEE 0) 9 ''a'' 0 1 [] identity_init)
     = Inl InvalidAddress
   \<and> fst (newAgent (mock_deps []) (call_env 7 REGISTRATION_FEE 0) 9 ''a'' 5 1 [] identity_init)
     = Inl InvalidSignature
   \<and> fst (newAgent (mock_deps [''newAgent'']) (call_env 7 REGISTRATION_FEE 0) 9 ''a'' 5 1 []
            identity_init)
     = Inr (1, AgentRegistered 1 ''a'' 5)"
  using
    newAgent_check_order [of "mock_deps []" "call_env 7 0 0" 9 "[]" 0 1 "[]" identity_init]
    newAgent_check_order [of "mock_deps []" "call_env 7 REGISTRATION_FEE 0" 9 "[]" 0 1 "[]"
      identity_init]
    newAgent_check_order [of "mock_deps []" "call_env 7 REGISTRATION_FEE 0" 9 "''a''" 0 1 "[]"
      identity_init]
    newAgent_check_order [of "mock_deps []" "call_env 7 REGISTRATION_FEE 0" 9 "''a''" 5 1 "[]"
      identity_init]
    newAgent_check_order [of "mock_deps [''newAgent'']" "call_env 7 REGISTRATION_FEE 0" 9
      "''a''" 5 1 "[]" identity_init]
  by (simp add: newAgent_preconditions_def mock_deps_def call_env_def identity_init_def
      REGISTRATION_FEE_def)

subsection \<open>updateAgent\<close>

text \<open>
  Claim C10. An \<open>updateAgent\<close> call with an empty new domain and a null new address
  that carries no value (the function is not payable) and passes the existence,
  authorization, signature and nonce checks returns
  \<open>true\<close> and leaves the record of the agent and both indexes as they were: the
  storage after the call is the storage before it with the nonce marked used for the
  signing principal, and nothing else.
\<close>

theorem updateAgent_no_change:
  assumes "agentId (agents s i) \<noteq> 0"
    and "msg_sender e = agentAddress (agents s i)"
    and "signatureVerification d (toString d (getEvvmID d)) ''updateAgent''
           (updateAgent_message d i [] 0 n) sg c"
    and "\<not> id_checkAsyncNonce s c n"
    and "msg_value e = 0"
  shows "updateAgent d e c i [] 0 n sg s =
           (Inr (True, AgentUpdated i (agentDomain (agents s i)) (agentAddress (agents s i))),
            s\<lparr>id_checkAsyncNonce :=
                (id_checkAsyncNonce s)(c := (id_checkAsyncNonce s c)(n := True))\<rparr>)"
  using assms by (simp add: updateAgent_def Let_def)

theorem updateAgent_no_change_witness:
  "updateAgent (mock_deps [''updateAgent'']) (call_env 5 0 0) 9 1 [] 0 2 [] one_agent =
     (Inr (True, AgentUpdated 1 ''a'' 5),
      one_agent\<lparr>id_checkAsyncNonce :=
        (id_checkAsyncNonce one_agent)(9 := (id_checkAsyncNonce one_agent 9)(2 := True))\<rparr>)"
  using updateAgent_no_change
    [of one_agent 1 "call_env 5 0 0" "mock_deps [''updateAgent'']" 2 "[]" 9]
  by (simp add: one_agent_simps mock_deps_def call_env_def)

text \<open>
  Claim C6 says that \<open>updateAgent\<close> fails Conflict on a new domain or address only when
  a different agent holds it, and that a call naming the agent's own current domain
  or address does not fail Conflict. The duplicate check of the code only asks whether
  the index entry is non-zero: agent 1, holding domain \<open>a\<close> and address 5, is refused
  both an update to domain \<open>a\<close> and an update to address 5.
\<close>

theorem updateAgent_own_value_conflict:
  "domainToAgentId one_agent ''a'' = 1 \<and> agentDomain (agents one_agent 1) = ''a''
   \<and> fails_with (fst (updateAgent (mock_deps [''updateAgent'']) (call_env 5 0 0)
                          9 1 ''a'' 0 2 [] one_agent)) Conflict
   \<and> addressToAgentId one_agent 5 = 1 \<and> agentAddress (agents one_agent 1) = 5
   \<and> fails_with (fst (updateAgent (mock_deps [''updateAgent'']) (call_env 5 0 0)
                          9 1 [] 5 2 [] one_agent)) Conflict"
  by (simp add: updateAgent_def fails_with_def one_agent_simps mock_deps_def call_env_def
      Let_def)

text \<open>
  Claim C6, amended. An \<open>updateAgent\<close> call that carries no value and passes the
  existence, authorization, signature and nonce checks fails Conflict exactly when
  its non-empty new domain is currently claimed by any agent, or its non-null new
  address is currently claimed by any agent, the agent being updated included. A
  field is kept by passing the empty domain or the null address: the call then leaves
  that field of the record and its index as they were.
\<close>

theorem updateAgent_conflict_iff:
  assumes "agentId (agents s i) \<noteq> 0"
    and "msg_sender e = agentAddress (agents s i)"
    and "signatureVerification d (toString d (getEvvmID d)) ''updateAgent''
           (updateAgent_message d i dm a n) sg c"
    and "\<not> id_checkAsyncNonce s c n"
    and "msg_value e = 0"
  shows "(fails_with (fst (updateAgent d e c i dm a n sg s)) Conflict
          \<longleftrightarrow> (dm \<noteq> [] \<and> domainToAgentId s dm \<noteq> 0)
               \<or> (a \<noteq> 0 \<and> addressToAgentId s a \<noteq> 0))
       \<and> (dm = [] \<longrightarrow>
            agentDomain (agents (snd (updateAgent d e c i dm a n sg s)) i)
              = agentDomain (agents s i)
            \<and> domainToAgentId (snd (updateAgent d e c i dm a n sg s)) = domainToAgentId s)
       \<and> (a = 0 \<longrightarrow>
            agentAddress (agents (snd (updateAgent d e c i dm a n sg s)) i)
              = agentAddress (agents s i)
            \<and> addressToAgentId (snd (updateAgent d e c i dm a n sg s)) = addressToAgentId s)"
proof (intro conjI impI)
  show "fails_with (fst (updateAgent d e c i dm a n sg s)) Conflict
          \<longleftrightarrow> (dm \<noteq> [] \<and> domainToAgentId s dm \<noteq> 0)
               \<or> (a \<noteq> 0 \<and> addressToAgentId s a \<noteq> 0)"
    using assms by (auto simp: updateAgent_def fails_with_def Let_def)
next
  assume "dm = []"
  then show "agentDomain (agents (snd (updateAgent d e c i dm a n sg s)) i)
               = agentDomain (agents s i)"
    and "domainToAgentId (snd (updateAgent d e c i dm a n sg s)) = domainToAgentId s"
    by (simp_all add: updateAgent_def Let_def)
next
  assume "a = 0"
  then show "agentAddress (agents (snd (updateAgent d e c i dm a n sg s)) i)
               = agentAddress (agents s i)"
    and "addressToAgentId (snd (updateAgent d e c i dm a n sg s)) = addressToAgentId s"
    by (simp_all add: updateAgent_def Let_def)
qed

theorem updateAgent_conflict_iff_witness:
  "fails_with (fst (updateAgent (mock_deps [''updateAgent'']) (call_env 5 0 0)
                      9 1 ''b'' 0 3 [] two_agents)) Conflict
   \<and> \<not> fails_with (fst (updateAgent (mock_deps [''updateAgent'']) (call_env 5 0 0)
                      9 1 ''c'' 7 3 [] two_agents)) Conflict
   \<and> \<not> fails_with (fst (updateAgent (mock_deps [''updateAgent'']) (call_env 5 0 0)
                      9 1 [] 7 3 [] two_agents)) Conflict
   \<and> agentDomain (agents (snd (updateAgent (mock_deps [''updateAgent'']) (call_env 5 0 0)
                      9 1 [] 7 3 [] two_agents)) 1) = ''a''
   \<and> domainToAgentId (snd (updateAgent (mock_deps [''updateAgent'']) (call_env 5 0 0)
                      9 1 [] 7 3 [] two_agents)) = domainToAgentId two_agents
   \<and> agentAddress (agents (snd (updateAgent (mock_deps [''updateAgent'']) (call_env 5 0 0)
                      9 1 ''c'' 0 3 [] two_agents)) 1) = 5
   \<and> addressToAgentId (snd (updateAgent (mock_deps [''updateAgent'']) (call_env 5 0 0)
                      9 1 ''c'' 0 3 [] two_agents)) = addressToAgentId two_agents"
  using
    updateAgent_conflict_iff [of two_agents 1 "call_env 5 0 0" "mock_deps [''updateAgent'']"
      "''b''" 0 3 "[]" 9]
    updateAgent_conflict_iff [of two_agents 1 "call_env 5 0 0" "mock_deps [''updateAgent'']"
      "''c''" 7 3 "[]" 9]
    updateAgent_conflict_iff [of two_agents 1 "call_env 5 0 0" "mock_deps [''updateAgent'']"
      "[]" 7 3 "[]" 9]
    updateAgent_conflict_iff [of two_agents 1 "call_env 5 0 0" "mock_deps [''updateAgent'']"
      "''c''" 0 3 "[]" 9]
  by (simp add: two_agents_simps mock_deps_def call_env_def)

subsection \<open>validationRequest\<close>

text \<open>
  Claim C7. For every data hash with a stored request: a successful
  \<open>validationRequest\<close> for the same hash while the current height is at most the
  stored height plus the expiration window leaves the stored record, its creation
  height included, unchanged; a successful one after the window replaces the record
  with the new validator and server ids, the current height and \<open>responded = false\<close>.
\<close>

theorem validationRequest_repeat:
  assumes "dataHash (validationRequests s h) \<noteq> 0"
    and "fst (validationRequest d e ids c vi si h n sg s) = Inr x"
  shows "(unat (block_number e)
            \<le> unat (timestamp (validationRequests s h)) + unat EXPIRATION_SLOTS
          \<longrightarrow> validationRequests (snd (validationRequest d e ids c vi si h n sg s)) h
                = validationRequests s h)
       \<and> (unat (block_number e)
            > unat (timestamp (validationRequests s h)) + unat EXPIRATION_SLOTS
          \<longrightarrow> validationRequests (snd (validationRequest d e ids c vi si h n sg s)) h
                = \<lparr>agentValidatorId = vi, agentServerId = si, dataHash = h,
                   timestamp = block_number e, responded = False\<rparr>)"
  using assms
  by (auto simp: validationRequest_def Let_def word_le_nat_alt
      dest!: checked_add_Some split: if_splits option.splits)

theorem validationRequest_repeat_witness:
  "validationRequests (snd (validationRequest (mock_deps [''updateAgent''])
       (call_env 9 0 1010) two_agents 9 2 1 7 2 [] pending_request)) 7
     = \<lparr>agentValidatorId = 1, agentServerId = 2, dataHash = 7, timestamp = 10,
        responded = False\<rparr>
   \<and> validationRequests (snd (validationRequest (mock_deps [''updateAgent''])
       (call_env 9 0 1011) two_agents 9 2 1 7 2 [] pending_request)) 7
     = \<lparr>agentValidatorId = 2, agentServerId = 1, dataHash = 7, timestamp = 1011,
        responded = False\<rparr>"
  using
    validationRequest_repeat [of pending_request 7 "mock_deps [''updateAgent'']"
      "call_env 9 0 1010" two_agents 9 2 1 2 "[]" "((), ValidationRequestEvent 2 1 7)"]
    validationRequest_repeat [of pending_request 7 "mock_deps [''updateAgent'']"
      "call_env 9 0 1011" two_agents 9 2 1 2 "[]" "((), ValidationRequestEvent 2 1 7)"]
  by (simp add: validationRequest_def pending_request_simps two_agents_simps mock_deps_def
      call_env_def agentExists_def checked_add_def EXPIRATION_SLOTS_def Let_def)

text \<open>
  Every other returning path marks the nonce: \<open>newAgent\<close>, \<open>updateAgent\<close>,
  \<open>acceptFeedback\<close> and \<open>validationResponse\<close> whenever they return, and
  \<open>validationRequest\<close> whenever it creates or replaces the record.
\<close>

lemma identity_success_marks_nonce:
  "fst (newAgent d e c dm a n sg s) = Inr x \<Longrightarrow>
     id_checkAsyncNonce (snd (newAgent d e c dm a n sg s)) c n"
  "fst (updateAgent d e c i dm a n sg s) = Inr y \<Longrightarrow>
     id_checkAsyncNonce (snd (updateAgent d e c i dm a n sg s)) c n"
  by (auto simp: newAgent_def updateAgent_def Let_def split: if_splits)

lemma acceptFeedback_success_marks_nonce:
  "fst (acceptFeedback d e ids c ci si n sg s) = Inr x \<Longrightarrow>
     rep_checkAsyncNonce (snd (acceptFeedback d e ids c ci si n sg s)) c n"
  by (auto simp: acceptFeedback_def Let_def split: if_splits sum.splits)

lemma validationResponse_success_marks_nonce:
  "fst (validationResponse d e ids c h r n sg s) = Inr x \<Longrightarrow>
     val_checkAsyncNonce (snd (validationResponse d e ids c h r n sg s)) c n"
  by (auto simp: validationResponse_def Let_def split: if_splits sum.splits option.splits)

lemma validationRequest_create_marks_nonce:
  "fst (validationRequest d e ids c vi si h n sg s) = Inr x \<Longrightarrow>
   dataHash (validationRequests s h) = 0
     \<or> unat (block_number e) > unat (timestamp (validationRequests s h)) + unat EXPIRATION_SLOTS \<Longrightarrow>
     val_checkAsyncNonce (snd (validationRequest d e ids c vi si h n sg s)) c n"
  by (auto simp: validationRequest_def Let_def word_le_nat_alt
      dest!: checked_add_Some split: if_splits option.splits)

text \<open>
  Claim C1 says that the nonce is consumed on both branches of \<open>validationRequest\<close>.
  On the retry branch the function returns right after emitting the event, before the
  statement that marks the nonce used: a request for hash 7 at height 20, while the
  request of height 10 is unexpired, passes every check with the fresh nonce 2,
  returns, and leaves the storage as it was, nonce 2 of principal 9 still unused.
\<close>

theorem validationRequest_retry_keeps_nonce_unused:
  "dataHash (validationRequests pending_request 7) = 7
   \<and> \<not> val_checkAsyncNonce pending_request 9 2
   \<and> validationRequest (mock_deps [''updateAgent'']) (call_env 9 0 20) two_agents
        9 1 2 7 2 [] pending_request
      = (Inr ((), ValidationRequestEvent 1 2 7), pending_request)
   \<and> \<not> val_checkAsyncNonce (snd (validationRequest (mock_deps [''updateAgent''])
        (call_env 9 0 20) two_agents 9 1 2 7 2 [] pending_request)) 9 2"
  by (simp add: validationRequest_def pending_request_simps two_agents_simps mock_deps_def
      call_env_def agentExists_def checked_add_def EXPIRATION_SLOTS_def Let_def)

text \<open>
  Claim C8 says that of two otherwise-valid calls reusing one (principal, nonce) pair
  the second fails Replay. Because the retry branch of \<open>validationRequest\<close> does not
  mark the nonce, it does not: after the retry with nonce 2 at height 20, the same
  request with the same nonce at height 21 returns again, and so does a
  \<open>validationResponse\<close> signed by the same principal with nonce 2.
\<close>

theorem nonce_reuse_after_retry_not_replay:
  "outcome (mock_deps [''updateAgent'']) (call_env 9 0 20)
      (ValidationRequest 9 1 2 7 2 []) (fixture_world pending_request)
     = None
   \<and> outcome (mock_deps [''updateAgent'']) (call_env 9 0 21)
      (ValidationRequest 9 1 2 7 2 [])
      (exec (mock_deps [''updateAgent'']) (call_env 9 0 20) (ValidationRequest 9 1 2 7 2 [])
         (fixture_world pending_request))
     = None
   \<and> outcome (mock_deps [''updateAgent'']) (call_env 5 0 21)
      (ValidationResponse 9 7 85 2 [])
      (exec (mock_deps [''updateAgent'']) (call_env 9 0 20) (ValidationRequest 9 1 2 7 2 [])
         (fixture_world pending_request))
     = None"
  by (simp add: validationRequest_def validationResponse_def commit_def getAgent_def
      fixture_world_def pending_request_simps two_agents_simps mock_deps_def
      call_env_def agentExists_def checked_add_def EXPIRATION_SLOTS_def Let_def)

subsection \<open>The function name under the signature\<close>

text \<open>
  Claim C2 says that the function name handed to the signature verifier is the name
  of the operation invoked. \<open>acceptFeedback\<close>, \<open>validationRequest\<close> and
  \<open>validationResponse\<close> all hand it the name \<open>updateAgent\<close>: with a verifier that
  accepts only signatures made for the operation's own name each of them fails
  InvalidSignature, and with one that accepts only signatures made for
  \<open>updateAgent\<close> each of them returns.
\<close>

theorem signature_bound_to_updateAgent:
  "fst (acceptFeedback (mock_deps [''acceptFeedback'']) (call_env 6 0 0) two_agents
          9 1 2 1 [] reputation_init) = Inl InvalidSignature
   \<and> fst (acceptFeedback (mock_deps [''updateAgent'']) (call_env 6 0 0) two_agents
          9 1 2 1 [] reputation_init) = Inr ((), AuthFeedback 1 2 1)
   \<and> fst (validationRequest (mock_deps [''validationRequest'']) (call_env 9 0 10) two_agents
          9 1 2 7 1 [] validation_init) = Inl InvalidSignature
   \<and> fst (validationRequest (mock_deps [''updateAgent'']) (call_env 9 0 10) two_agents
          9 1 2 7 1 [] validation_init) = Inr ((), ValidationRequestEvent 1 2 7)
   \<and> fst (validationResponse (mock_deps [''validationResponse'']) (call_env 5 0 20)
          two_agents 9 7 85 2 [] pending_request) = Inl InvalidSignature
   \<and> fst (validationResponse (mock_deps [''updateAgent'']) (call_env 5 0 20) two_agents
          9 7 85 2 [] pending_request) = Inr ((), ValidationResponseEvent 1 2 7 85)"
  by (simp add: acceptFeedback_def validationRequest_def validationResponse_def
      generateFeedbackAuthId_def pending_request_simps two_agents_simps mock_deps_def
      reputation_init_def validation_init_def no_request_def getAgent_def call_env_def
      agentExists_def checked_add_def EXPIRATION_SLOTS_def Let_def)

subsection \<open>The indexes of the identity registry\<close>

lemma identity_inv_counter: "identity_inv s \<Longrightarrow> agentIdCounter s \<noteq> 0"
  by (simp add: identity_inv_def)

lemma identity_inv_existsD:
  "identity_inv s \<Longrightarrow>
   agentId (agents s i) = 0 \<or> (agentId (agents s i) = i \<and> i < agentIdCounter s)"
  by (simp add: identity_inv_def)

lemma identity_inv_domainI:
  "identity_inv s \<Longrightarrow> agentId (agents s i) \<noteq> 0 \<Longrightarrow>
   domainToAgentId s (agentDomain (agents s i)) = i"
  by (simp add: identity_inv_def)

lemma identity_inv_domainD:
  "identity_inv s \<Longrightarrow> domainToAgentId s dm \<noteq> 0 \<Longrightarrow>
   agentId (agents s (domainToAgentId s dm)) \<noteq> 0
   \<and> agentDomain (agents s (domainToAgentId s dm)) = dm"
  by (simp add: identity_inv_def)

lemma identity_inv_addressI:
  "identity_inv s \<Longrightarrow> agentId (agents s i) \<noteq> 0 \<Longrightarrow>
   addressToAgentId s (agentAddress (agents s i)) = i"
  by (simp add: identity_inv_def)

lemma identity_inv_addressD:
  "identity_inv s \<Longrightarrow> addressToAgentId s a \<noteq> 0 \<Longrightarrow>
   agentId (agents s (addressToAgentId s a)) \<noteq> 0
   \<and> agentAddress (agents s (addressToAgentId s a)) = a"
  by (simp add: identity_inv_def)

lemma identity_invI:
  assumes "agentIdCounter s \<noteq> 0"
    and "\<And>i. agentId (agents s i) = 0 \<or> (agentId (agents s i) = i \<and> i < agentIdCounter s)"
    and "\<And>i. agentId (agents s i) \<noteq> 0 \<Longrightarrow> domainToAgentId s (agentDomain (agents s i)) = i"
    and "\<And>dm. domainToAgentId s dm \<noteq> 0 \<Longrightarrow>
           agentId (agents s (domainToAgentId s dm)) \<noteq> 0
           \<and> agentDomain (agents s (domainToAgentId s dm)) = dm"
    and "\<And>i. agentId (agents s i) \<noteq> 0 \<Longrightarrow> addressToAgentId s (agentAddress (agents s i)) = i"
    and "\<And>a. addressToAgentId s a \<noteq> 0 \<Longrightarrow>
           agentId (agents s (addressToAgentId s a)) \<noteq> 0
           \<and> agentAddress (agents s (addressToAgentId s a)) = a"
  shows "identity_inv s"
  unfolding identity_inv_def
  apply (intro conjI allI impI)
         apply (rule assms(1))
        apply (rule assms(2))
       apply (erule assms(3))
      apply (drule assms(4), erule conjunct1)
     apply (drule assms(4), erule conjunct2)
    apply (erule assms(5))
   apply (drule assms(6), erule conjunct1)
  apply (drule assms(6), erule conjunct2)
  done

lemma identity_inv_init: "identity_inv identity_init"
  by (simp add: identity_inv_def identity_init_def no_agent_def)

lemma word_lt_succ: "(c :: 'a::len word) \<noteq> - 1 \<Longrightarrow> c < c + 1"
  by (metis inc_less_eq_triv_imp linorder_less_linear word_le_less_eq)

lemma word_succ_nz: "(c :: 'a::len word) \<noteq> - 1 \<Longrightarrow> c + 1 \<noteq> 0"
  by (metis ab_left_minus minus_add_cancel)

lemma inv_register:
  assumes inv: "identity_inv s"
    and c: "agentIdCounter s \<noteq> - 1"
    and dfree: "domainToAgentId s dm = 0"
    and afree: "addressToAgentId s a = 0"
    and cnt: "agentIdCounter s' = agentIdCounter s + 1"
    and ag: "agents s' = (agents s)(agentIdCounter s :=
               \<lparr>agentId = agentIdCounter s, agentDomain = dm, agentAddress = a\<rparr>)"
    and di: "domainToAgentId s' = (domainToAgentId s)(dm := agentIdCounter s)"
    and ai: "addressToAgentId s' = (addressToAgentId s)(a := agentIdCounter s)"
  shows "identity_inv s'"
proof (rule identity_invI)
  let ?c = "agentIdCounter s"
  have c0: "?c \<noteq> 0" using inv by (rule identity_inv_counter)
  have fresh: "agentId (agents s ?c) = 0"
    using identity_inv_existsD [OF inv, of ?c] by auto
  have lt: "?c < ?c + 1" using c by (rule word_lt_succ)
  show "agentIdCounter s' \<noteq> 0" using c cnt by (simp add: word_succ_nz)
  show "agentId (agents s' i) = 0 \<or> (agentId (agents s' i) = i \<and> i < agentIdCounter s')" for i
  proof (cases "i = ?c")
    case True
    then show ?thesis using lt by (simp add: ag cnt)
  next
    case False
    then show ?thesis using identity_inv_existsD [OF inv, of i] lt
      by (auto simp: ag cnt intro: less_trans)
  qed
  show "domainToAgentId s' (agentDomain (agents s' i)) = i" if "agentId (agents s' i) \<noteq> 0" for i
  proof (cases "i = ?c")
    case True
    then show ?thesis by (simp add: ag di)
  next
    case False
    with that have ex: "agentId (agents s i) \<noteq> 0" by (simp add: ag)
    have "domainToAgentId s (agentDomain (agents s i)) = i"
      using inv ex by (rule identity_inv_domainI)
    moreover from this dfree False have "agentDomain (agents s i) \<noteq> dm"
      using ex identity_inv_existsD [OF inv, of i] by auto
    ultimately show ?thesis using False by (simp add: ag di)
  qed
  show "agentId (agents s' (domainToAgentId s' d)) \<noteq> 0
          \<and> agentDomain (agents s' (domainToAgentId s' d)) = d"
    if "domainToAgentId s' d \<noteq> 0" for d
  proof (cases "d = dm")
    case True
    then show ?thesis using c0 by (simp add: ag di)
  next
    case False
    with that have nz: "domainToAgentId s d \<noteq> 0" by (simp add: di)
    have *: "agentId (agents s (domainToAgentId s d)) \<noteq> 0
             \<and> agentDomain (agents s (domainToAgentId s d)) = d"
      using inv nz by (rule identity_inv_domainD)
    with fresh have "domainToAgentId s d \<noteq> ?c" by auto
    with * False show ?thesis by (simp add: ag di)
  qed
  show "addressToAgentId s' (agentAddress (agents s' i)) = i" if "agentId (agents s' i) \<noteq> 0" for i
  proof (cases "i = ?c")
    case True
    then show ?thesis by (simp add: ag ai)
  next
    case False
    with that have ex: "agentId (agents s i) \<noteq> 0" by (simp add: ag)
    have "addressToAgentId s (agentAddress (agents s i)) = i"
      using inv ex by (rule identity_inv_addressI)
    moreover from this afree False have "agentAddress (agents s i) \<noteq> a"
      using ex identity_inv_existsD [OF inv, of i] by auto
    ultimately show ?thesis using False by (simp add: ag ai)
  qed
  show "agentId (agents s' (addressToAgentId s' x)) \<noteq> 0
          \<and> agentAddress (agents s' (addressToAgentId s' x)) = x"
    if "addressToAgentId s' x \<noteq> 0" for x
  proof (cases "x = a")
    case True
    then show ?thesis using c0 by (simp add: ag ai)
  next
    case False
    with that have nz: "addressToAgentId s x \<noteq> 0" by (simp add: ai)
    have *: "agentId (agents s (addressToAgentId s x)) \<noteq> 0
             \<and> agentAddress (agents s (addressToAgentId s x)) = x"
      using inv nz by (rule identity_inv_addressD)
    with fresh have "addressToAgentId s x \<noteq> ?c" by auto
    with * False show ?thesis by (simp add: ag ai)
  qed
qed

lemma inv_domain_change:
  assumes inv: "identity_inv s"
    and ex_i: "agentId (agents s i) \<noteq> 0"
    and dfree: "domainToAgentId s nd = 0"
    and cnt: "agentIdCounter s' = agentIdCounter s"
    and ag: "agents s' = (agents s)(i := (agents s i)\<lparr>agentDomain := nd\<rparr>)"
    and di: "domainToAgentId s' = (domainToAgentId s)(agentDomain (agents s i) := 0, nd := i)"
    and ai: "addressToAgentId s' = addressToAgentId s"
  shows "identity_inv s'"
proof (rule identity_invI)
  let ?old = "agentDomain (agents s i)"
  have i0: "i \<noteq> 0" using identity_inv_existsD [OF inv, of i] ex_i by auto
  have old: "domainToAgentId s ?old = i" using inv ex_i by (rule identity_inv_domainI)
  show "agentIdCounter s' \<noteq> 0" using identity_inv_counter [OF inv] cnt by simp
  show "agentId (agents s' j) = 0 \<or> (agentId (agents s' j) = j \<and> j < agentIdCounter s')" for j
    using identity_inv_existsD [OF inv, of j] by (cases "j = i") (simp_all add: ag cnt)
  show "domainToAgentId s' (agentDomain (agents s' j)) = j" if "agentId (agents s' j) \<noteq> 0" for j
  proof (cases "j = i")
    case True
    then show ?thesis by (simp add: ag di)
  next
    case False
    with that have ex: "agentId (agents s j) \<noteq> 0" by (simp add: ag)
    have dj: "domainToAgentId s (agentDomain (agents s j)) = j"
      using inv ex by (rule identity_inv_domainI)
    have j0: "j \<noteq> 0" using identity_inv_existsD [OF inv, of j] ex by auto
    from dj dfree j0 have "agentDomain (agents s j) \<noteq> nd" by auto
    moreover from dj old False have "agentDomain (agents s j) \<noteq> ?old" by auto
    ultimately show ?thesis using False dj by (simp add: ag di)
  qed
  show "agentId (agents s' (domainToAgentId s' d)) \<noteq> 0
          \<and> agentDomain (agents s' (domainToAgentId s' d)) = d"
    if "domainToAgentId s' d \<noteq> 0" for d
  proof (cases "d = nd")
    case True
    then show ?thesis using ex_i by (simp add: ag di)
  next
    case False
    with that have ne: "d \<noteq> ?old" and nz: "domainToAgentId s d \<noteq> 0"
      by (auto simp: di split: if_splits)
    have *: "agentId (agents s (domainToAgentId s d)) \<noteq> 0
             \<and> agentDomain (agents s (domainToAgentId s d)) = d"
      using inv nz by (rule identity_inv_domainD)
    with ne have "domainToAgentId s d \<noteq> i" by auto
    with * False ne show ?thesis by (simp add: ag di)
  qed
  show "addressToAgentId s' (agentAddress (agents s' j)) = j" if "agentId (agents s' j) \<noteq> 0" for j
  proof (cases "j = i")
    case True
    then show ?thesis using identity_inv_addressI [OF inv ex_i] by (simp add: ag ai)
  next
    case False
    with that have ex: "agentId (agents s j) \<noteq> 0" by (simp add: ag)
    then show ?thesis using identity_inv_addressI [OF inv ex] False by (simp add: ag ai)
  qed
  show "agentId (agents s' (addressToAgentId s' x)) \<noteq> 0
          \<and> agentAddress (agents s' (addressToAgentId s' x)) = x"
    if "addressToAgentId s' x \<noteq> 0" for x
  proof -
    from that have nz: "addressToAgentId s x \<noteq> 0" by (simp add: ai)
    have *: "agentId (agents s (addressToAgentId s x)) \<noteq> 0
             \<and> agentAddress (agents s (addressToAgentId s x)) = x"
      using inv nz by (rule identity_inv_addressD)
    then show ?thesis by (cases "addressToAgentId s x = i") (simp_all add: ag ai)
  qed
qed

lemma inv_address_change:
  assumes inv: "identity_inv s"
    and ex_i: "agentId (agents s i) \<noteq> 0"
    and afree: "addressToAgentId s na = 0"
    and cnt: "agentIdCounter s' = agentIdCounter s"
    and ag: "agents s' = (agents s)(i := (agents s i)\<lparr>agentAddress := na\<rparr>)"
    and ai: "addressToAgentId s' = (addressToAgentId s)(agentAddress (agents s i) := 0, na := i)"
    and di: "domainToAgentId s' = domainToAgentId s"
  shows "identity_inv s'"
proof (rule identity_invI)
  let ?old = "agentAddress (agents s i)"
  have i0: "i \<noteq> 0" using identity_inv_existsD [OF inv, of i] ex_i by auto
  have old: "addressToAgentId s ?old = i" using inv ex_i by (rule identity_inv_addressI)
  show "agentIdCounter s' \<noteq> 0" using identity_inv_counter [OF inv] cnt by simp
  show "agentId (agents s' j) = 0 \<or> (agentId (agents s' j) = j \<and> j < agentIdCounter s')" for j
    using identity_inv_existsD [OF inv, of j] by (cases "j = i") (simp_all add: ag cnt)
  show "addressToAgentId s' (agentAddress (agents s' j)) = j" if "agentId (agents s' j) \<noteq> 0" for j
  proof (cases "j = i")
    case True
    then show ?thesis by (simp add: ag ai)
  next
    case False
    with that have ex: "agentId (agents s j) \<noteq> 0" by (simp add: ag)
    have aj: "addressToAgentId s (agentAddress (agents s j)) = j"
      using inv ex by (rule identity_inv_addressI)
    have j0: "j \<noteq> 0" using identity_inv_existsD [OF inv, of j] ex by auto
    from aj afree j0 have "agentAddress (agents s j) \<noteq> na" by auto
    moreover from aj old False have "agentAddress (agents s j) \<noteq> ?old" by auto
    ultimately show ?thesis using False aj by (simp add: ag ai)
  qed
  show "agentId (agents s' (addressToAgentId s' x)) \<noteq> 0
          \<and> agentAddress (agents s' (addressToAgentId s' x)) = x"
    if "addressToAgentId s' x \<noteq> 0" for x
  proof (cases "x = na")
    case True
    then show ?thesis using ex_i by (simp add: ag ai)
  next
    case False
    with that have ne: "x \<noteq> ?old" and nz: "addressToAgentId s x \<noteq> 0"
      by (auto simp: ai split: if_splits)
    have *: "agentId (agents s (addressToAgentId s x)) \<noteq> 0
             \<and> agentAddress (agents s (addressToAgentId s x)) = x"
      using inv nz by (rule identity_inv_addressD)
    with ne have "addressToAgentId s x \<noteq> i" by auto
    with * False ne show ?thesis by (simp add: ag ai)
  qed
  show "domainToAgentId s' (agentDomain (agents s' j)) = j" if "agentId (agents s' j) \<noteq> 0" for j
  proof (cases "j = i")
    case True
    then show ?thesis using identity_inv_domainI [OF inv ex_i] by (simp add: ag di)
  next
    case False
    with that have ex: "agentId (agents s j) \<noteq> 0" by (simp add: ag)
    then show ?thesis using identity_inv_domainI [OF inv ex] False by (simp add: ag di)
  qed
  show "agentId (agents s' (domainToAgentId s' x)) \<noteq> 0
          \<and> agentDomain (agents s' (domainToAgentId s' x)) = x"
    if "domainToAgentId s' x \<noteq> 0" for x
  proof -
    from that have nz: "domainToAgentId s x \<noteq> 0" by (simp add: di)
    have *: "agentId (agents s (domainToAgentId s x)) \<noteq> 0
             \<and> agentDomain (agents s (domainToAgentId s x)) = x"
      using inv nz by (rule identity_inv_domainD)
    then show ?thesis by (cases "domainToAgentId s x = i") (simp_all add: ag di)
  qed
qed

lemma inv_frame:
  assumes "identity_inv s"
    and "agentIdCounter s' = agentIdCounter s" and "agents s' = agents s"
    and "domainToAgentId s' = domainToAgentId s" and "addressToAgentId s' = addressToAgentId s"
  shows "identity_inv s'"
  using assms by (simp add: identity_inv_def)

lemma newAgent_preserves_inv:
  assumes inv: "identity_inv s"
  shows "identity_inv (commit s (newAgent d e c dm a n sg s))"
proof (cases "fst (newAgent d e c dm a n sg s)")
  case (Inl err)
  then show ?thesis using inv by (simp add: commit_def)
next
  case (Inr x)
  let ?s' = "snd (newAgent d e c dm a n sg s)"
  from Inr have pre: "agentIdCounter s \<noteq> - 1" "domainToAgentId s dm = 0"
      "addressToAgentId s a = 0"
    by (simp_all add: newAgent_def Let_def split: if_splits)
  from Inr have post: "agentIdCounter ?s' = agentIdCounter s + 1"
      "agents ?s' = (agents s)(agentIdCounter s :=
         \<lparr>agentId = agentIdCounter s, agentDomain = dm, agentAddress = a\<rparr>)"
      "domainToAgentId ?s' = (domainToAgentId s)(dm := agentIdCounter s)"
      "addressToAgentId ?s' = (addressToAgentId s)(a := agentIdCounter s)"
    by (simp_all add: newAgent_def Let_def split: if_splits)
  have "identity_inv ?s'" using inv pre post by (rule inv_register)
  with Inr show ?thesis by (simp add: commit_def)
qed

lemma updateAgent_preserves_inv:
  assumes inv: "identity_inv s"
  shows "identity_inv (commit s (updateAgent d e c i dm a n sg s))"
proof (cases "fst (updateAgent d e c i dm a n sg s)")
  case (Inl err)
  then show ?thesis using inv by (simp add: commit_def)
next
  case (Inr x)
  let ?s' = "snd (updateAgent d e c i dm a n sg s)"
  define s1 where "s1 =
    (if dm \<noteq> [] then
       s\<lparr>domainToAgentId := (domainToAgentId s)(agentDomain (agents s i) := 0, dm := i),
         agents := (agents s)(i := (agents s i)\<lparr>agentDomain := dm\<rparr>)\<rparr>
     else s)"
  define s2 where "s2 =
    (if a \<noteq> 0 then
       s1\<lparr>addressToAgentId := (addressToAgentId s1)(agentAddress (agents s1 i) := 0, a := i),
          agents := (agents s1)(i := (agents s1 i)\<lparr>agentAddress := a\<rparr>)\<rparr>
     else s1)"
  from Inr have ex: "agentId (agents s i) \<noteq> 0"
    and dfree: "dm \<noteq> [] \<Longrightarrow> domainToAgentId s dm = 0"
    and afree: "a \<noteq> 0 \<Longrightarrow> addressToAgentId s a = 0"
    by (auto simp: updateAgent_def Let_def split: if_splits)
  from Inr have post: "agentIdCounter ?s' = agentIdCounter s2" "agents ?s' = agents s2"
      "domainToAgentId ?s' = domainToAgentId s2" "addressToAgentId ?s' = addressToAgentId s2"
    by (auto simp: updateAgent_def Let_def s1_def s2_def split: if_splits)
  have inv1: "identity_inv s1"
  proof (cases "dm = []")
    case True
    then show ?thesis using inv by (simp add: s1_def)
  next
    case False
    show ?thesis
      by (rule inv_domain_change [OF inv ex dfree [OF False]]) (simp_all add: s1_def False)
  qed
  have ex1: "agentId (agents s1 i) \<noteq> 0" using ex by (simp add: s1_def)
  have afree1: "a \<noteq> 0 \<Longrightarrow> addressToAgentId s1 a = 0" using afree by (simp add: s1_def)
  have inv2: "identity_inv s2"
  proof (cases "a = 0")
    case True
    then show ?thesis using inv1 by (simp add: s2_def)
  next
    case False
    show ?thesis
      by (rule inv_address_change [OF inv1 ex1 afree1 [OF False]]) (simp_all add: s2_def False)
  qed
  have "identity_inv ?s'" using inv2 post by (rule inv_frame)
  with Inr show ?thesis by (simp add: commit_def)
qed

lemma exec_preserves_inv: "identity_inv (identity w) \<Longrightarrow> identity_inv (identity (exec d e c w))"
  by (cases c) (simp_all add: newAgent_preserves_inv updateAgent_preserves_inv)

lemma run_preserves_inv: "identity_inv (identity w) \<Longrightarrow> identity_inv (identity (run d cs w))"
  by (induction cs arbitrary: w) (auto simp: exec_preserves_inv)

text \<open>
  Claim C9. After any sequence of operations, starting from the storage the
  constructors leave, the domain index and the address index are exactly consistent
  with the agent records: domain \<open>dm\<close> maps to id \<open>i\<close> (a non-zero entry) iff agent
  \<open>i\<close> exists with domain \<open>dm\<close>, and address \<open>a\<close> maps to id \<open>i\<close> iff agent \<open>i\<close>
  exists with address \<open>a\<close>; there are no orphaned or stale entries.
\<close>

theorem indexes_consistent:
  "((domainToAgentId (identity (run d cs world_init)) dm = i \<and> i \<noteq> 0)
      \<longleftrightarrow> (agentExists (identity (run d cs world_init)) i
           \<and> agentDomain (agents (identity (run d cs world_init)) i) = dm))
   \<and> ((addressToAgentId (identity (run d cs world_init)) a = i \<and> i \<noteq> 0)
      \<longleftrightarrow> (agentExists (identity (run d cs world_init)) i
           \<and> agentAddress (agents (identity (run d cs world_init)) i) = a))"
proof -
  let ?s = "identity (run d cs world_init)"
  have inv: "identity_inv ?s"
    by (rule run_preserves_inv) (simp add: world_init_def identity_inv_init)
  have ex: "agentId (agents ?s i) \<noteq> 0 \<Longrightarrow> i \<noteq> 0"
    using identity_inv_existsD [OF inv, of i] by auto
  have d1: "domainToAgentId ?s dm = i \<and> i \<noteq> 0 \<Longrightarrow>
              agentId (agents ?s i) \<noteq> 0 \<and> agentDomain (agents ?s i) = dm"
    using identity_inv_domainD [OF inv, of dm] by auto
  have d2: "agentId (agents ?s i) \<noteq> 0 \<and> agentDomain (agents ?s i) = dm \<Longrightarrow>
              domainToAgentId ?s dm = i \<and> i \<noteq> 0"
    using identity_inv_domainI [OF inv, of i] ex by auto
  have a1: "addressToAgentId ?s a = i \<and> i \<noteq> 0 \<Longrightarrow>
              agentId (agents ?s i) \<noteq> 0 \<and> agentAddress (agents ?s i) = a"
    using identity_inv_addressD [OF inv, of a] by auto
  have a2: "agentId (agents ?s i) \<noteq> 0 \<and> agentAddress (agents ?s i) = a \<Longrightarrow>
              addressToAgentId ?s a = i \<and> i \<noteq> 0"
    using identity_inv_addressI [OF inv, of i] ex by auto
  from d1 d2 a1 a2 show ?thesis unfolding agentExists_def by blast
qed

theorem indexes_consistent_witness:
  "domainToAgentId (identity (run (mock_deps [''newAgent'', ''updateAgent''])
      [(call_env 9 REGISTRATION_FEE 0, NewAgent 9 ''a'' 5 1 []),
       (call_env 9 REGISTRATION_FEE 0, NewAgent 9 ''b'' 6 2 []),
       (call_env 5 0 0, UpdateAgent 9 1 ''c'' 0 3 [])] world_init)) ''c'' = 1
   \<and> agentExists (identity (run (mock_deps [''newAgent'', ''updateAgent''])
      [(call_env 9 REGISTRATION_FEE 0, NewAgent 9 ''a'' 5 1 []),
       (call_env 9 REGISTRATION_FEE 0, NewAgent 9 ''b'' 6 2 []),
       (call_env 5 0 0, UpdateAgent 9 1 ''c'' 0 3 [])] world_init)) 1
   \<and> domainToAgentId (identity (run (mock_deps [''newAgent'', ''updateAgent''])
      [(call_env 9 REGISTRATION_FEE 0, NewAgent 9 ''a'' 5 1 []),
       (call_env 9 REGISTRATION_FEE 0, NewAgent 9 ''b'' 6 2 []),
       (call_env 5 0 0, UpdateAgent 9 1 ''c'' 0 3 [])] world_init)) ''a'' = 0
   \<and> addressToAgentId (identity (run (mock_deps [''newAgent'', ''updateAgent''])
      [(call_env 9 REGISTRATION_FEE 0, NewAgent 9 ''a'' 5 1 []),
       (call_env 9 REGISTRATION_FEE 0, NewAgent 9 ''b'' 6 2 []),
       (call_env 5 0 0, UpdateAgent 9 1 ''c'' 0 3 [])] world_init)) 6 = 2"
  using
    indexes_consistent [of "mock_deps [''newAgent'', ''updateAgent'']"
      "[(call_env 9 REGISTRATION_FEE 0, NewAgent 9 ''a'' 5 1 []),
        (call_env 9 REGISTRATION_FEE 0, NewAgent 9 ''b'' 6 2 []),
        (call_env 5 0 0, UpdateAgent 9 1 ''c'' 0 3 [])]" "''c''" 1 5]
    indexes_consistent [of "mock_deps [''newAgent'', ''updateAgent'']"
      "[(call_env 9 REGISTRATION_FEE 0, NewAgent 9 ''a'' 5 1 []),
        (call_env 9 REGISTRATION_FEE 0, NewAgent 9 ''b'' 6 2 []),
        (call_env 5 0 0, UpdateAgent 9 1 ''c'' 0 3 [])]" "''a''" 2 6]
  by (simp add: newAgent_def updateAgent_def commit_def agentExists_def world_init_def
      identity_init_def no_agent_def mock_deps_def call_env_def Let_def)

subsection \<open>The score of a validation\<close>

lemma commit_cases:
  "commit s r = s \<or> (\<exists>x. fst r = Inr x \<and> commit s r = snd r)"
  by (cases "fst r") (simp_all add: commit_def)

lemma validationRequest_keeps_answer:
  assumes "answered vs h R v" and "responded R" and "dataHash R \<noteq> 0"
    and "h' = h \<Longrightarrow>
           unat (block_number e) \<le> unat (timestamp R) + unat EXPIRATION_SLOTS
           \<or> (\<exists>err. fst (validationRequest d e ids c vi si h' n sg vs) = Inl err)"
  shows "answered (commit vs (validationRequest d e ids c vi si h' n sg vs)) h R v"
proof (cases "h' = h")
  case False
  then show ?thesis using assms(1)
    by (auto simp: commit_def validationRequest_def answered_def Let_def
        split: sum.splits option.splits)
next
  case True
  show ?thesis
  proof (cases "\<exists>err. fst (validationRequest d e ids c vi si h' n sg vs) = Inl err")
    case True
    then show ?thesis using assms(1) by (auto simp: commit_def)
  next
    case False
    with assms(4) [OF \<open>h' = h\<close>]
    have "unat (block_number e) \<le> unat (timestamp R) + unat EXPIRATION_SLOTS" by simp
    with \<open>h' = h\<close> assms(1-3) show ?thesis
      by (auto simp: commit_def validationRequest_def answered_def Let_def word_le_nat_alt
          dest!: checked_add_Some split: sum.splits option.splits)
  qed
qed

lemma validationResponse_keeps_answer:
  assumes "answered vs h R v" and "responded R" and "dataHash R \<noteq> 0"
  shows "answered (commit vs (validationResponse d e ids c h' r n sg vs)) h R v"
proof (cases "h' = h")
  case False
  then show ?thesis using assms(1)
    by (auto simp: commit_def validationResponse_def answered_def Let_def
        split: sum.splits option.splits)
next
  case True
  with assms show ?thesis
    by (auto simp: commit_def validationResponse_def answered_def Let_def
        split: sum.splits option.splits)
qed

lemma exec_keeps_answer:
  assumes "answered (validation w) h R v" and "responded R" and "dataHash R \<noteq> 0"
    and "\<not> late_request d h e c w"
  shows "answered (validation (exec d e c w)) h R v"
proof (cases c)
  case (ValidationRequest c' vi si h' n sg)
  from assms(1) have ts: "timestamp (validationRequests (validation w) h) = timestamp R"
    by (simp add: answered_def)
  from assms(4) ValidationRequest ts
  have "h' = h \<Longrightarrow>
          unat (block_number e) \<le> unat (timestamp R) + unat EXPIRATION_SLOTS
          \<or> (\<exists>err. fst (validationRequest d e (identity w) c' vi si h' n sg (validation w))
                      = Inl err)"
    by (auto simp: late_request_def split: sum.splits)
  with assms(1-3) ValidationRequest show ?thesis
    by (simp add: validationRequest_keeps_answer)
next
  case (ValidationResponse c' h' r n sg)
  with assms(1-3) show ?thesis by (simp add: validationResponse_keeps_answer)
qed (use assms(1) in simp_all)

lemma run_keeps_answer:
  assumes "answered (validation w) h R v" and "responded R" and "dataHash R \<noteq> 0"
    and "no_late_request d h cs w"
  shows "answered (validation (run d cs w)) h R v"
  using assms
proof (induction cs arbitrary: w)
  case Nil
  then show ?case by simp
next
  case (Cons ec cs)
  obtain e c where ec: "ec = (e, c)" by (cases ec)
  from Cons.prems have "answered (validation (exec d e c w)) h R v"
    by (intro exec_keeps_answer) (simp_all add: ec)
  with Cons show ?case by (simp add: ec)
qed

lemma validationResponse_success:
  assumes "fst (validationResponse d e ids c h r n sg vs) = Inr x"
  shows "answered (snd (validationResponse d e ids c h r n sg vs)) h
           ((validationRequests vs h)\<lparr>responded := True\<rparr>) r
         \<and> dataHash (validationRequests vs h) \<noteq> 0
         \<and> unat (timestamp (validationRequests vs h)) + unat EXPIRATION_SLOTS < 2 ^ 256"
  using assms
  by (auto simp: validationResponse_def answered_def Let_def checked_add_def
      split: if_splits sum.splits option.splits)

lemma answered_second_response:
  assumes "answered vs h R v" and "responded R" and "dataHash R \<noteq> 0"
    and "unat (timestamp R) + unat EXPIRATION_SLOTS < 2 ^ 256" and "r \<le> 100"
    and "msg_value e = 0"
  shows "fst (validationResponse d e ids c h r n sg vs) =
           (if unat (block_number e) \<le> unat (timestamp R) + unat EXPIRATION_SLOTS
            then Inl ValidationAlreadyResponded else Inl RequestExpired)"
  using assms
  by (auto simp: validationResponse_def answered_def Let_def checked_add_None word_le_nat_alt
      word_less_nat_alt dest!: checked_add_Some split: option.splits)

text \<open>
  Claim C3 says that the score of a data hash is written once and that no sequence of
  operations can overwrite it, a second response failing Conflict. Once the window of
  the answered request of height 10 has passed, a second response fails Expired, not
  Conflict; and a fresh \<open>validationRequest\<close> at height 1011 replaces the record with
  \<open>responded = false\<close>, after which the response 90 overwrites the stored score 85.
\<close>

theorem score_overwritten_after_expiry:
  "getValidationResponse responded_request 7 = (True, 85)
   \<and> outcome (mock_deps [''updateAgent'']) (call_env 5 0 1011) (ValidationResponse 9 7 90 3 [])
        (fixture_world responded_request) = Some RequestExpired
   \<and> getValidationResponse
       (validation (run (mock_deps [''updateAgent''])
          [(call_env 9 0 1011, ValidationRequest 9 1 2 7 3 []),
           (call_env 5 0 1012, ValidationResponse 9 7 90 4 [])]
          (fixture_world responded_request))) 7
     = (True, 90)"
  by (simp add: getValidationResponse_def validationRequest_def validationResponse_def
      commit_def getAgent_def agentExists_def fixture_world_def
      responded_request_simps two_agents_simps mock_deps_def call_env_def checked_add_def
      EXPIRATION_SLOTS_def Let_def)

text \<open>
  Claim C3, amended. After a successful \<open>validationResponse\<close> for a data hash with
  score \<open>r0\<close>, no sequence of operations can overwrite the score unless it contains
  a \<open>validationRequest\<close> for that hash that returns after the window of the stored
  request has passed: the registry still reports \<open>(true, r0)\<close>, and a further
  response attempt that carries no value and a score in range fails Conflict while
  the request is unexpired and Expired afterwards.
\<close>

theorem score_kept_without_late_request:
  assumes ok: "outcome d e0 (ValidationResponse c0 h r0 n0 sg0) w = None"
    and quiet: "no_late_request d h cs (exec d e0 (ValidationResponse c0 h r0 n0 sg0) w)"
    and range: "r \<le> 100"
    and novalue: "msg_value e = 0"
  shows "getValidationResponse
           (validation (run d cs (exec d e0 (ValidationResponse c0 h r0 n0 sg0) w))) h
         = (True, r0)
       \<and> outcome d e (ValidationResponse c h r n sg)
           (run d cs (exec d e0 (ValidationResponse c0 h r0 n0 sg0) w))
         = Some (if unat (block_number e)
                      \<le> unat (timestamp (validationRequests (validation w) h))
                         + unat EXPIRATION_SLOTS
                 then ValidationAlreadyResponded else RequestExpired)"
proof -
  let ?vs = "validation w"
  let ?R = "(validationRequests ?vs h)\<lparr>responded := True\<rparr>"
  let ?w1 = "exec d e0 (ValidationResponse c0 h r0 n0 sg0) w"
  let ?w2 = "run d cs ?w1"
  from ok obtain x where
    x: "fst (validationResponse d e0 (identity w) c0 h r0 n0 sg0 ?vs) = Inr x"
    by (auto split: sum.splits)
  note s = validationResponse_success [OF x]
  from x have w1: "validation ?w1 = snd (validationResponse d e0 (identity w) c0 h r0 n0 sg0 ?vs)"
    by (simp add: commit_def)
  have a1: "answered (validation ?w1) h ?R r0" using s w1 by simp
  have R: "responded ?R" "dataHash ?R \<noteq> 0"
    "unat (timestamp ?R) + unat EXPIRATION_SLOTS < 2 ^ 256"
    using s by simp_all
  have a2: "answered (validation ?w2) h ?R r0"
    using a1 R(1,2) quiet by (rule run_keeps_answer)
  have "getValidationResponse (validation ?w2) h = (True, r0)"
    using a2 by (simp add: getValidationResponse_def answered_def)
  moreover have "outcome d e (ValidationResponse c h r n sg) ?w2
      = Some (if unat (block_number e) \<le> unat (timestamp ?R) + unat EXPIRATION_SLOTS
              then ValidationAlreadyResponded else RequestExpired)"
    using answered_second_response [OF a2 R range novalue, of d "identity ?w2" c n sg]
    by simp
  ultimately show ?thesis by simp
qed

theorem score_kept_without_late_request_witness:
  "getValidationResponse
     (validation (run (mock_deps [''updateAgent''])
        [(call_env 9 0 30, ValidationRequest 9 2 1 7 3 []),
         (call_env 9 0 1011, ValidationRequest 9 2 1 7 1 []),
         (call_env 9 0 1011, ValidationRequest 9 1 2 8 4 [])]
        (exec (mock_deps [''updateAgent'']) (call_env 5 0 20) (ValidationResponse 9 7 85 2 [])
           (fixture_world pending_request)))) 7
     = (True, 85)
   \<and> outcome (mock_deps [''updateAgent'']) (call_env 5 0 1010) (ValidationResponse 9 7 90 5 [])
       (run (mock_deps [''updateAgent''])
        [(call_env 9 0 30, ValidationRequest 9 2 1 7 3 []),
         (call_env 9 0 1011, ValidationRequest 9 2 1 7 1 []),
         (call_env 9 0 1011, ValidationRequest 9 1 2 8 4 [])]
        (exec (mock_deps [''updateAgent'']) (call_env 5 0 20) (ValidationResponse 9 7 85 2 [])
           (fixture_world pending_request)))
     = Some ValidationAlreadyResponded
   \<and> outcome (mock_deps [''updateAgent'']) (call_env 5 0 1012) (ValidationResponse 9 7 90 5 [])
       (run (mock_deps [''updateAgent''])
        [(call_env 9 0 30, ValidationRequest 9 2 1 7 3 []),
         (call_env 9 0 1011, ValidationRequest 9 2 1 7 1 []),
         (call_env 9 0 1011, ValidationRequest 9 1 2 8 4 [])]
        (exec (mock_deps [''updateAgent'']) (call_env 5 0 20) (ValidationResponse 9 7 85 2 [])
           (fixture_world pending_request)))
     = Some RequestExpired"
  using
    score_kept_without_late_request
      [of "mock_deps [''updateAgent'']" "call_env 5 0 20" 9 7 85 2 "[]"
          "fixture_world pending_request"
          "[(call_env 9 0 30, ValidationRequest 9 2 1 7 3 []),
            (call_env 9 0 1011, ValidationRequest 9 2 1 7 1 []),
            (call_env 9 0 1011, ValidationRequest 9 1 2 8 4 [])]"
          90 "call_env 5 0 1010" 9 5 "[]"]
    score_kept_without_late_request
      [of "mock_deps [''updateAgent'']" "call_env 5 0 20" 9 7 85 2 "[]"
          "fixture_world pending_request"
          "[(call_env 9 0 30, ValidationRequest 9 2 1 7 3 []),
            (call_env 9 0 1011, ValidationRequest 9 2 1 7 1 []),
            (call_env 9 0 1011, ValidationRequest 9 1 2 8 4 [])]"
          90 "call_env 5 0 1012" 9 5 "[]"]
  by (simp add: late_request_def validationRequest_def validationResponse_def commit_def
      getAgent_def agentExists_def fixture_world_def pending_request_simps two_agents_simps
      mock_deps_def call_env_def checked_add_def EXPIRATION_SLOTS_def no_request_def Let_def)

end
